theory Spec2Isabelle
  imports Complex_Main
begin

section \<open>Data model\<close>

text \<open>
  A shallow embedding of \<^verbatim>\<open>BoundsGenerator.ts\<close> and of the static elevation
  range source. A JavaScript \<^verbatim>\<open>number\<close> that holds a coordinate is a \<^typ>\<open>real\<close>:
  the comparisons of the source agree with the comparisons of the reals on every
  finite double, and the rounding of \<^verbatim>\<open>360 + longitude\<close> is idealised.
  The accumulators of \<^verbatim>\<open>normalizeCoordinates\<close> start at the infinities, so they
  have the type \<open>number\<close> below.
\<close>

datatype ProjectionType = Planar | Spherical

datatype FarPlaneSide = Bottom | Right | Top | Left

datatype error = AssertionError | TypeError

record Vector3 =
  vx :: real
  vy :: real
  vz :: real

record GeoCoordinates =
  latitude :: real
  longitude :: real
  altitude :: "real option"

record Ray =
  origin :: Vector3
  direction :: Vector3

record Line3 =
  line_start :: Vector3
  line_end :: Vector3

record Plane =
  normal :: Vector3
  plane_constant :: real

record Sphere =
  center :: Vector3
  radius :: real

record Box3 =
  box_min :: Vector3
  box_max :: Vector3

record TileCorners =
  se :: Vector3
  sw :: Vector3
  ne :: Vector3
  nw :: Vector3

text \<open>The parameter type \<^verbatim>\<open>Line3 | Ray\<close> of \<^verbatim>\<open>addFrustumIntersection\<close>.\<close>

datatype Edge = EdgeLine Line3 | EdgeRay Ray

text \<open>
  Modelled from the spec: the class \<^verbatim>\<open>Frustum\<close> of the 3D math library is not part
  of the sources; it is "the 6-plane volume a camera can see", an array \<^verbatim>\<open>planes\<close> of
  six planes.
\<close>

datatype Frustum = Frustum Plane Plane Plane Plane Plane Plane

fun planes :: "Frustum \<Rightarrow> Plane list" where
  "planes (Frustum p0 p1 p2 p3 p4 p5) = [p0, p1, p2, p3, p4, p5]"

text \<open>
  Modelled from the spec: the class \<^verbatim>\<open>GeoPolygon\<close> is not part of the sources. It is
  "constructed with a flag indicating whether the constructor must re-sort vertices into
  a consistent (counter-clockwise) winding"; a polygon is the pair of arguments its
  constructor received.
\<close>

datatype GeoPolygon = GeoPolygon (coordinates: "GeoCoordinates list") (needsSort: bool)

text \<open>
  The generator: its wrapping flag, and the capabilities of its camera, its projection and
  the libraries it calls, none of which is part of the sources. Each field stands for the
  source expression given beside it.
\<close>

record BoundsGenerator =
  projection_type :: ProjectionType
    \<comment> \<open>\<^verbatim>\<open>this.m_projection.type\<close>\<close>
  unprojectPoint :: "Vector3 \<Rightarrow> GeoCoordinates"
    \<comment> \<open>\<^verbatim>\<open>this.m_projection.unprojectPoint(p)\<close>, a fresh object at each call\<close>
  worldExtent :: "real \<Rightarrow> real \<Rightarrow> Box3"
    \<comment> \<open>\<^verbatim>\<open>this.m_projection.worldExtent(min, max)\<close>\<close>
  tileWrappingEnabled :: bool
  camera_unproject :: "Vector3 \<Rightarrow> Vector3"
    \<comment> \<open>\<^verbatim>\<open>v.unproject(this.m_camera)\<close>\<close>
  camera_project :: "Vector3 \<Rightarrow> Vector3"
    \<comment> \<open>\<^verbatim>\<open>v.project(this.m_camera)\<close>\<close>
  camera_frustum :: Frustum
    \<comment> \<open>\<^verbatim>\<open>new Frustum().setFromProjectionMatrix(projectionMatrix * matrixWorldInverse)\<close>\<close>
  rayCastWorldCoordinates :: "real \<Rightarrow> real \<Rightarrow> Vector3 option"
    \<comment> \<open>\<^verbatim>\<open>MapViewUtils.rayCastWorldCoordinates({camera, projection}, x, y)\<close>\<close>
  closeToFrustum :: "Vector3 \<Rightarrow> bool"
    \<comment> \<open>\<^verbatim>\<open>MapViewUtils.closeToFrustum(p, this.m_camera)\<close>\<close>
  intersectSphere :: "Ray \<Rightarrow> Sphere \<Rightarrow> Vector3 option"
    \<comment> \<open>\<^verbatim>\<open>ray.intersectSphere(sphere, target)\<close>\<close>
  ray_intersectsPlane :: "Ray \<Rightarrow> Plane \<Rightarrow> bool"
    \<comment> \<open>\<^verbatim>\<open>ray.intersectsPlane(plane)\<close>\<close>
  ray_intersectPlane :: "Ray \<Rightarrow> Plane \<Rightarrow> Vector3 option"
    \<comment> \<open>\<^verbatim>\<open>ray.intersectPlane(plane, target)\<close>\<close>
  plane_intersectsLine :: "Plane \<Rightarrow> Line3 \<Rightarrow> bool"
    \<comment> \<open>\<^verbatim>\<open>plane.intersectsLine(line)\<close>\<close>
  plane_intersectLine :: "Plane \<Rightarrow> Line3 \<Rightarrow> Vector3 option"
    \<comment> \<open>\<^verbatim>\<open>plane.intersectLine(line, target)\<close>\<close>
  containsPoint :: "Frustum \<Rightarrow> Vector3 \<Rightarrow> bool"
    \<comment> \<open>\<^verbatim>\<open>frustum.containsPoint(p)\<close>\<close>
  EQUATORIAL_RADIUS :: real
    \<comment> \<open>\<^verbatim>\<open>EarthConstants.EQUATORIAL_RADIUS\<close>\<close>
  EQUATORIAL_CIRCUMFERENCE :: real
    \<comment> \<open>\<^verbatim>\<open>EarthConstants.EQUATORIAL_CIRCUMFERENCE\<close>\<close>

section \<open>Numbers and vectors\<close>

text \<open>
  The values a \<^verbatim>\<open>number\<close> accumulator of \<^verbatim>\<open>normalizeCoordinates\<close> can take, with
  the IEEE results of the operations the function applies to them.
\<close>

datatype number = NaN | NegInfinity | Finite real | Infinity

fun Math_min :: "number \<Rightarrow> real \<Rightarrow> number" where
  "Math_min NaN b = NaN"
| "Math_min NegInfinity b = NegInfinity"
| "Math_min (Finite a) b = Finite (min a b)"
| "Math_min Infinity b = Finite b"

fun Math_max :: "number \<Rightarrow> real \<Rightarrow> number" where
  "Math_max NaN b = NaN"
| "Math_max NegInfinity b = Finite b"
| "Math_max (Finite a) b = Finite (max a b)"
| "Math_max Infinity b = Infinity"

fun num_less :: "number \<Rightarrow> number \<Rightarrow> bool" where
  "num_less NaN b = False"
| "num_less a NaN = False"
| "num_less Infinity b = False"
| "num_less a NegInfinity = False"
| "num_less NegInfinity b = True"
| "num_less a Infinity = True"
| "num_less (Finite a) (Finite b) = (a < b)"

fun num_ge :: "number \<Rightarrow> number \<Rightarrow> bool" where
  "num_ge NaN b = False"
| "num_ge a NaN = False"
| "num_ge Infinity b = True"
| "num_ge a NegInfinity = True"
| "num_ge NegInfinity b = False"
| "num_ge a Infinity = False"
| "num_ge (Finite a) (Finite b) = (a \<ge> b)"

fun num_add :: "number \<Rightarrow> number \<Rightarrow> number" where
  "num_add NaN b = NaN"
| "num_add a NaN = NaN"
| "num_add Infinity NegInfinity = NaN"
| "num_add NegInfinity Infinity = NaN"
| "num_add Infinity b = Infinity"
| "num_add a Infinity = Infinity"
| "num_add NegInfinity b = NegInfinity"
| "num_add a NegInfinity = NegInfinity"
| "num_add (Finite a) (Finite b) = Finite (a + b)"

fun num_sub :: "number \<Rightarrow> number \<Rightarrow> number" where
  "num_sub NaN b = NaN"
| "num_sub a NaN = NaN"
| "num_sub Infinity Infinity = NaN"
| "num_sub NegInfinity NegInfinity = NaN"
| "num_sub Infinity b = Infinity"
| "num_sub a NegInfinity = Infinity"
| "num_sub NegInfinity b = NegInfinity"
| "num_sub a Infinity = NegInfinity"
| "num_sub (Finite a) (Finite b) = Finite (a - b)"

definition v3_add :: "Vector3 \<Rightarrow> Vector3 \<Rightarrow> Vector3" where
  "v3_add a b = \<lparr>vx = vx a + vx b, vy = vy a + vy b, vz = vz a + vz b\<rparr>"

definition v3_sub :: "Vector3 \<Rightarrow> Vector3 \<Rightarrow> Vector3" where
  "v3_sub a b = \<lparr>vx = vx a - vx b, vy = vy a - vy b, vz = vz a - vz b\<rparr>"

definition v3_multiplyScalar :: "Vector3 \<Rightarrow> real \<Rightarrow> Vector3" where
  "v3_multiplyScalar a s = \<lparr>vx = vx a * s, vy = vy a * s, vz = vz a * s\<rparr>"

definition v3_length :: "Vector3 \<Rightarrow> real" where
  "v3_length a = sqrt (vx a * vx a + vy a * vy a + vz a * vz a)"

text \<open>\<^verbatim>\<open>normalize()\<close> divides by \<^verbatim>\<open>this.length() || 1\<close>.\<close>

definition v3_normalize :: "Vector3 \<Rightarrow> Vector3" where
  "v3_normalize a =
     (let l = (if v3_length a = 0 then 1 else v3_length a)
      in \<lparr>vx = vx a / l, vy = vy a / l, vz = vz a / l\<rparr>)"

section \<open>BoundsGenerator\<close>

definition m_groundPlane :: Plane where
  "m_groundPlane = \<lparr>normal = \<lparr>vx = 0, vy = 0, vz = 1\<rparr>, plane_constant = 0\<rparr>"

definition m_groundSphere :: "BoundsGenerator \<Rightarrow> Sphere" where
  "m_groundSphere bg = \<lparr>center = \<lparr>vx = 0, vy = 0, vz = 0\<rparr>, radius = EQUATORIAL_RADIUS bg\<rparr>"

text \<open>
  Modelled from the spec: \<^verbatim>\<open>assert\<close> of the utilities package is not part of the
  sources; a failed "internal consistency check" is "a programming-contract violation,
  not a runtime-recoverable condition", so it ends the call with an error.
\<close>

definition assert :: "bool \<Rightarrow> error + unit" where
  "assert condition = (if condition then Inr () else Inl AssertionError)"

definition isInVisibleMap :: "BoundsGenerator \<Rightarrow> Vector3 \<Rightarrow> bool" where
  "isInVisibleMap bg point =
     (if projection_type bg = Planar then
        (if vy point < 0 \<or> vy point > EQUATORIAL_CIRCUMFERENCE bg then False
         else if \<not> tileWrappingEnabled bg \<and>
                 (vx point < 0 \<or> vx point > EQUATORIAL_CIRCUMFERENCE bg) then False
         else True)
      else True)"

definition validateAndAddToGeoPolygon ::
  "BoundsGenerator \<Rightarrow> Vector3 \<Rightarrow> GeoCoordinates list \<Rightarrow> GeoCoordinates list" where
  "validateAndAddToGeoPolygon bg point geoPolygon =
     (if isInVisibleMap bg point then geoPolygon @ [unprojectPoint bg point]
      else geoPolygon)"

definition addNDCRayIntersection ::
  "BoundsGenerator \<Rightarrow> (real \<times> real) list \<Rightarrow> GeoCoordinates list \<Rightarrow> GeoCoordinates list" where
  "addNDCRayIntersection bg ndcPoints geoPolygon =
     foldl (\<lambda>acc corner.
        case rayCastWorldCoordinates bg (fst corner) (snd corner) of
          Some intersection \<Rightarrow> validateAndAddToGeoPolygon bg intersection acc
        | None \<Rightarrow> acc) geoPolygon ndcPoints"

definition addCanvasCornerIntersection ::
  "BoundsGenerator \<Rightarrow> GeoCoordinates list \<Rightarrow> bool \<Rightarrow> GeoCoordinates list" where
  "addCanvasCornerIntersection bg geoPolygon addMidPoints =
     (if addMidPoints then
        addNDCRayIntersection bg [(-1, -1), (1, -1), (1, 1), (-1, 1)] geoPolygon
      else
        addNDCRayIntersection bg [(-1, -1), (-1, 1), (1, 1), (1, -1)] geoPolygon)"

definition normalizeCoordinates ::
  "BoundsGenerator \<Rightarrow> GeoCoordinates list \<Rightarrow> GeoCoordinates list" where
  "normalizeCoordinates bg coords =
     (let minLongitude = foldl (\<lambda>m geoCoords. Math_min m (longitude geoCoords)) Infinity coords;
          maxLongitude = foldl (\<lambda>m geoCoords. Math_max m (longitude geoCoords)) NegInfinity coords
      in if num_ge minLongitude (Finite 0) \<or> num_less maxLongitude (Finite 0) then coords
         else if (case rayCastWorldCoordinates bg 0 0 of
                    Some cameraTarget \<Rightarrow>
                      (let targetLongitude = longitude (unprojectPoint bg cameraTarget)
                       in targetLongitude > -90 \<and> targetLongitude < 90)
                  | None \<Rightarrow>
                      num_less (num_sub maxLongitude minLongitude)
                        (num_sub (num_add (Finite 360) minLongitude) maxLongitude))
         then coords
         else map (\<lambda>geoCoord.
                if longitude geoCoord < 0
                then geoCoord\<lparr>longitude := 360 + longitude geoCoord\<rparr>
                else geoCoord) coords)"

definition createPolygon ::
  "BoundsGenerator \<Rightarrow> GeoCoordinates list \<Rightarrow> bool \<Rightarrow> bool \<Rightarrow> GeoPolygon option" where
  "createPolygon bg coords sort_flag normalize_flag =
     (if length coords > 2 then
        (let coords = (if normalize_flag then normalizeCoordinates bg coords else coords)
         in Some (GeoPolygon coords sort_flag))
      else None)"

text \<open>Sequencing of calls that can throw: the first error ends the computation.\<close>

definition and_then :: "error + 'a \<Rightarrow> ('a \<Rightarrow> error + 'b) \<Rightarrow> error + 'b" where
  "and_then r f = (case r of Inl e \<Rightarrow> Inl e | Inr v \<Rightarrow> f v)"

text \<open>
  In \<^verbatim>\<open>addFarPlaneSideIntersections\<close> the vectors are objects updated in place:
  \<^verbatim>\<open>unproject\<close> and \<^verbatim>\<open>sub\<close> overwrite their receiver and return it, and a
  \<^verbatim>\<open>Ray\<close> keeps the objects it is given. So \<^verbatim>\<open>cornerBWorld\<close> holds the
  difference \<^verbatim>\<open>B - A\<close> from the first ray on, and the second ray is built from the
  updated objects. The rebinding of the two names below follows these updates.
\<close>

definition addFarPlaneSideIntersections ::
  "BoundsGenerator \<Rightarrow> GeoCoordinates list \<Rightarrow> FarPlaneSide \<Rightarrow> error + GeoCoordinates list" where
  "addFarPlaneSideIntersections bg coords side =
     and_then (assert (projection_type bg = Spherical)) (\<lambda>_.
       let cornerA = (case side of
                        Bottom \<Rightarrow> \<lparr>vx = -1, vy = -1, vz = 1\<rparr>
                      | Right \<Rightarrow> \<lparr>vx = 1, vy = 1, vz = 1\<rparr>
                      | Top \<Rightarrow> \<lparr>vx = -1, vy = 1, vz = 1\<rparr>
                      | Left \<Rightarrow> \<lparr>vx = -1, vy = 1, vz = 1\<rparr>);
           cornerB = (case side of
                        Bottom \<Rightarrow> \<lparr>vx = 1, vy = -1, vz = 1\<rparr>
                      | Right \<Rightarrow> \<lparr>vx = 1, vy = -1, vz = 1\<rparr>
                      | Top \<Rightarrow> \<lparr>vx = 1, vy = 1, vz = 1\<rparr>
                      | Left \<Rightarrow> \<lparr>vx = -1, vy = -1, vz = 1\<rparr>);
           cornerAWorld = camera_unproject bg cornerA;
           cornerBWorld = camera_unproject bg cornerB;
           cornerBWorld = v3_sub cornerBWorld cornerAWorld;
           abRay = \<lparr>origin = cornerAWorld, direction = cornerBWorld\<rparr>;
           coords = (case intersectSphere bg abRay (m_groundSphere bg) of
                       Some abIntersection \<Rightarrow> coords @ [unprojectPoint bg abIntersection]
                     | None \<Rightarrow> coords);
           cornerAWorld = v3_sub cornerAWorld cornerBWorld;
           baRay = \<lparr>origin = cornerBWorld, direction = cornerAWorld\<rparr>;
           coords = (case intersectSphere bg baRay (m_groundSphere bg) of
                       Some baIntersection \<Rightarrow> coords @ [unprojectPoint bg baIntersection]
                     | None \<Rightarrow> coords)
       in Inr coords)"

definition findBoundsIntersectionsOnSphere ::
  "BoundsGenerator \<Rightarrow> error + GeoCoordinates list" where
  "findBoundsIntersectionsOnSphere bg =
     and_then (assert (projection_type bg = Spherical)) (\<lambda>_.
       let coords = addCanvasCornerIntersection bg [] False
       in if length coords = 4 then Inr coords
          else
            and_then
              (if length coords = 0 then addFarPlaneSideIntersections bg coords Bottom
               else and_then (assert (length coords = 2)) (\<lambda>_. Inr coords)) (\<lambda>coords.
            and_then (addFarPlaneSideIntersections bg coords Right) (\<lambda>coords.
            and_then (addFarPlaneSideIntersections bg coords Top) (\<lambda>coords.
            addFarPlaneSideIntersections bg coords Left))))"

definition subdivideSides :: "GeoCoordinates list \<Rightarrow> GeoCoordinates list" where
  "subdivideSides coords = coords"

definition generateOnSphere :: "BoundsGenerator \<Rightarrow> error + GeoPolygon option" where
  "generateOnSphere bg =
     and_then (assert (projection_type bg = Spherical)) (\<lambda>_.
     and_then (findBoundsIntersectionsOnSphere bg) (\<lambda>found.
       let coords = subdivideSides found
       in Inr (createPolygon bg coords True True)))"

definition getVerticalHorizonPositionInNDC :: "BoundsGenerator \<Rightarrow> real option" where
  "getVerticalHorizonPositionInNDC bg =
     (if projection_type bg \<noteq> Planar then None
      else
        let bottomMidFarPoint =
              v3_multiplyScalar
                (v3_add (camera_unproject bg \<lparr>vx = -1, vy = -1, vz = 1\<rparr>)
                        (camera_unproject bg \<lparr>vx = 1, vy = -1, vz = 1\<rparr>)) 0.5;
            topMidFarPoint =
              v3_multiplyScalar
                (v3_add (camera_unproject bg \<lparr>vx = -1, vy = 1, vz = 1\<rparr>)
                        (camera_unproject bg \<lparr>vx = 1, vy = 1, vz = 1\<rparr>)) 0.5;
            farPlaneVerticalCenterLine =
              \<lparr>line_start = bottomMidFarPoint, line_end = topMidFarPoint\<rparr>
        in case plane_intersectLine bg m_groundPlane farPlaneVerticalCenterLine of
             None \<Rightarrow> None
           | Some verticalHorizonPosition \<Rightarrow>
               Some (vy (camera_project bg verticalHorizonPosition)))"

text \<open>
  \<^verbatim>\<open>if (!verticalHorizonPosition) return;\<close> tests a \<^verbatim>\<open>number | undefined\<close>:
  the number 0 is falsy as well, so a horizon at the NDC row 0 is skipped too.
\<close>

definition addHorizonIntersection ::
  "BoundsGenerator \<Rightarrow> GeoCoordinates list \<Rightarrow> GeoCoordinates list" where
  "addHorizonIntersection bg geoPolygon =
     (if projection_type bg = Planar then
        (case getVerticalHorizonPositionInNDC bg of
           None \<Rightarrow> geoPolygon
         | Some verticalHorizonPosition \<Rightarrow>
             if verticalHorizonPosition = 0 then geoPolygon
             else addNDCRayIntersection bg
                    [(-1, verticalHorizonPosition), (1, verticalHorizonPosition)] geoPolygon)
      else
        let topLeftFarPoint = camera_unproject bg \<lparr>vx = -1, vy = 1, vz = 1\<rparr>;
            bottomLeftFarPoint = camera_unproject bg \<lparr>vx = -1, vy = -1, vz = 1\<rparr>;
            leftRay = \<lparr>origin = topLeftFarPoint,
                       direction = v3_sub bottomLeftFarPoint topLeftFarPoint\<rparr>;
            geoPolygon = (case intersectSphere bg leftRay (m_groundSphere bg) of
                            Some leftHorizonIntersection \<Rightarrow>
                              validateAndAddToGeoPolygon bg leftHorizonIntersection geoPolygon
                          | None \<Rightarrow> geoPolygon);
            topRightFarPoint = camera_unproject bg \<lparr>vx = 1, vy = 1, vz = 1\<rparr>;
            bottomRightPoint = camera_unproject bg \<lparr>vx = 1, vy = -1, vz = 1\<rparr>;
            rightRay = \<lparr>origin = topRightFarPoint,
                        direction = v3_sub bottomRightPoint topRightFarPoint\<rparr>
        in (case intersectSphere bg rightRay (m_groundSphere bg) of
              Some rightHorizonIntersection \<Rightarrow>
                validateAndAddToGeoPolygon bg rightHorizonIntersection geoPolygon
            | None \<Rightarrow> geoPolygon))"

definition getWorldConers :: "BoundsGenerator \<Rightarrow> TileCorners option" where
  "getWorldConers bg =
     (if projection_type bg \<noteq> Planar then None
      else
        let worldBox = worldExtent bg 0 0
        in Some \<lparr>se = \<lparr>vx = vx (box_max worldBox), vy = vy (box_min worldBox), vz = 0\<rparr>,
                  sw = box_min worldBox,
                  ne = box_max worldBox,
                  nw = \<lparr>vx = vx (box_min worldBox), vy = vy (box_max worldBox), vz = 0\<rparr>\<rparr>)"

definition addPointInFrustum ::
  "BoundsGenerator \<Rightarrow> Vector3 \<Rightarrow> Frustum \<Rightarrow> GeoCoordinates list \<Rightarrow> GeoCoordinates list" where
  "addPointInFrustum bg point frustum geoPolygon =
     (if containsPoint bg frustum point then
        (let geoPoint = unprojectPoint bg point;
             geoPoint = geoPoint\<lparr>altitude := Some 0\<rparr>
         in geoPolygon @ [geoPoint])
      else geoPolygon)"

definition addFrustumIntersection ::
  "BoundsGenerator \<Rightarrow> Edge \<Rightarrow> Frustum \<Rightarrow> GeoCoordinates list \<Rightarrow> GeoCoordinates list" where
  "addFrustumIntersection bg edge frustum geoPolygon =
     foldl (\<lambda>acc plane.
        let intersection =
              (case edge of
                 EdgeRay ray \<Rightarrow>
                   if ray_intersectsPlane bg ray plane then ray_intersectPlane bg ray plane
                   else None
               | EdgeLine line \<Rightarrow>
                   if plane_intersectsLine bg plane line then plane_intersectLine bg plane line
                   else None)
        in case intersection of
             Some point \<Rightarrow>
               if closeToFrustum bg point then
                 (let geoIntersection = unprojectPoint bg point;
                      geoIntersection = geoIntersection\<lparr>altitude := Some 0\<rparr>
                  in acc @ [geoIntersection])
               else acc
           | None \<Rightarrow> acc) geoPolygon (planes frustum)"

text \<open>
  \<^verbatim>\<open>getWorldConers\<close> is cast to \<^verbatim>\<open>TileCorners\<close>; were it undefined, reading a
  corner of it would throw a \<^verbatim>\<open>TypeError\<close>.
\<close>

definition generateOnPlane :: "BoundsGenerator \<Rightarrow> error + GeoPolygon option" where
  "generateOnPlane bg =
     (let coords = addCanvasCornerIntersection bg [] False
      in if length coords = 4 then Inr (createPolygon bg coords True False)
         else
           let coords = addHorizonIntersection bg coords;
               frustum = camera_frustum bg
           in case getWorldConers bg of
                None \<Rightarrow> Inl TypeError
              | Some worldCorners \<Rightarrow>
                  let coords =
                        (if \<not> tileWrappingEnabled bg then
                           foldl (\<lambda>acc corner. addPointInFrustum bg corner frustum acc) coords
                             [ne worldCorners, nw worldCorners, se worldCorners, sw worldCorners]
                         else coords);
                      coords =
                        (if \<not> tileWrappingEnabled bg then
                           foldl (\<lambda>acc edge. addFrustumIntersection bg edge frustum acc) coords
                             [EdgeLine \<lparr>line_start = sw worldCorners, line_end = se worldCorners\<rparr>,
                              EdgeLine \<lparr>line_start = ne worldCorners, line_end = nw worldCorners\<rparr>,
                              EdgeLine \<lparr>line_start = se worldCorners, line_end = ne worldCorners\<rparr>,
                              EdgeLine \<lparr>line_start = nw worldCorners, line_end = sw worldCorners\<rparr>]
                         else
                           let directionEast =
                                 v3_normalize (v3_sub (sw worldCorners) (se worldCorners));
                               directionWest =
                                 v3_normalize (v3_sub (se worldCorners) (sw worldCorners))
                           in foldl (\<lambda>acc ray. addFrustumIntersection bg ray frustum acc) coords
                                [EdgeRay \<lparr>origin = se worldCorners, direction = directionEast\<rparr>,
                                 EdgeRay \<lparr>origin = se worldCorners, direction = directionWest\<rparr>,
                                 EdgeRay \<lparr>origin = ne worldCorners, direction = directionEast\<rparr>,
                                 EdgeRay \<lparr>origin = ne worldCorners, direction = directionWest\<rparr>])
                  in Inr (createPolygon bg coords True False))"

definition generate :: "BoundsGenerator \<Rightarrow> error + GeoPolygon option" where
  "generate bg =
     (if projection_type bg = Planar then generateOnPlane bg else generateOnSphere bg)"

section \<open>StaticElevationRangeSource\<close>

datatype CalculationStatus = PendingApproximate | FinalPrecise

record ElevationRange =
  minElevation :: real
  maxElevation :: real
  calculationStatus :: "CalculationStatus option"

record TileKey =
  row :: nat
  column :: nat
  level :: nat

text \<open>The part of a \<^verbatim>\<open>DataSource\<close> the constructor reads; \<open>'t\<close> is the tiling scheme.\<close>

record 't DataSource =
  getTilingScheme_of :: 't
  minGeometryHeight :: real
  maxGeometryHeight :: real

record 't StaticElevationRangeSource =
  m_tilingScheme :: 't
  m_minElevation :: real
  m_maxElevation :: real

text \<open>The constructor's first parameter, \<^verbatim>\<open>DataSource | TilingScheme\<close>.\<close>

datatype 't SourceArg = FromDataSource "'t DataSource" | FromTilingScheme 't

text \<open>A promise is settled or pending; \<^verbatim>\<open>Promise.resolve()\<close> is settled with no value.\<close>

datatype 'a Promise = Pending | Resolved 'a | Rejected string

fun newStaticElevationRangeSource ::
  "'t SourceArg \<Rightarrow> real \<Rightarrow> real \<Rightarrow> 't StaticElevationRangeSource" where
  "newStaticElevationRangeSource (FromDataSource dataSource) minElev maxElev =
     \<lparr>m_tilingScheme = getTilingScheme_of dataSource,
      m_minElevation = minGeometryHeight dataSource,
      m_maxElevation = maxGeometryHeight dataSource\<rparr>"
| "newStaticElevationRangeSource (FromTilingScheme scheme) minElev maxElev =
     \<lparr>m_tilingScheme = scheme, m_minElevation = minElev, m_maxElevation = maxElev\<rparr>"

definition getElevationRange :: "'t StaticElevationRangeSource \<Rightarrow> TileKey \<Rightarrow> ElevationRange" where
  "getElevationRange src tileKey =
     \<lparr>minElevation = m_minElevation src,
      maxElevation = m_maxElevation src,
      calculationStatus = Some FinalPrecise\<rparr>"

definition getTilingScheme :: "'t StaticElevationRangeSource \<Rightarrow> 't" where
  "getTilingScheme src = m_tilingScheme src"

definition connect :: "'t StaticElevationRangeSource \<Rightarrow> unit Promise" where
  "connect src = Resolved ()"

definition ready :: "'t StaticElevationRangeSource \<Rightarrow> bool" where
  "ready src = True"

section \<open>Notions used in the statements\<close>

text \<open>"Every negative longitude is shifted by +360 degrees", in the spec's words.\<close>

definition shiftNegativeLongitudes :: "GeoCoordinates list \<Rightarrow> GeoCoordinates list" where
  "shiftNegativeLongitudes coords =
     map (\<lambda>g. if longitude g < 0 then g\<lparr>longitude := longitude g + 360\<rparr> else g) coords"

text \<open>
  The value of the local variable \<^verbatim>\<open>coordinates\<close> of \<^verbatim>\<open>generateOnPlane\<close> at the
  call of \<^verbatim>\<open>createPolygon\<close>: the boundary points the planar algorithm accumulated.
\<close>

definition planeCoordinates :: "BoundsGenerator \<Rightarrow> error + GeoCoordinates list" where
  "planeCoordinates bg =
     (let coords = addCanvasCornerIntersection bg [] False
      in if length coords = 4 then Inr coords
         else
           let coords = addHorizonIntersection bg coords;
               frustum = camera_frustum bg
           in case getWorldConers bg of
                None \<Rightarrow> Inl TypeError
              | Some worldCorners \<Rightarrow>
                  let coords =
                        (if \<not> tileWrappingEnabled bg then
                           foldl (\<lambda>acc corner. addPointInFrustum bg corner frustum acc) coords
                             [ne worldCorners, nw worldCorners, se worldCorners, sw worldCorners]
                         else coords);
                      coords =
                        (if \<not> tileWrappingEnabled bg then
                           foldl (\<lambda>acc edge. addFrustumIntersection bg edge frustum acc) coords
                             [EdgeLine \<lparr>line_start = sw worldCorners, line_end = se worldCorners\<rparr>,
                              EdgeLine \<lparr>line_start = ne worldCorners, line_end = nw worldCorners\<rparr>,
                              EdgeLine \<lparr>line_start = se worldCorners, line_end = ne worldCorners\<rparr>,
                              EdgeLine \<lparr>line_start = nw worldCorners, line_end = sw worldCorners\<rparr>]
                         else
                           let directionEast =
                                 v3_normalize (v3_sub (sw worldCorners) (se worldCorners));
                               directionWest =
                                 v3_normalize (v3_sub (se worldCorners) (sw worldCorners))
                           in foldl (\<lambda>acc ray. addFrustumIntersection bg ray frustum acc) coords
                                [EdgeRay \<lparr>origin = se worldCorners, direction = directionEast\<rparr>,
                                 EdgeRay \<lparr>origin = se worldCorners, direction = directionWest\<rparr>,
                                 EdgeRay \<lparr>origin = ne worldCorners, direction = directionEast\<rparr>,
                                 EdgeRay \<lparr>origin = ne worldCorners, direction = directionWest\<rparr>])
                  in Inr coords)"

text \<open>
  The boundary points a call of \<^verbatim>\<open>generate\<close> accumulates before it builds the
  polygon, or the error that ends the call before that.
\<close>

definition boundaryPoints :: "BoundsGenerator \<Rightarrow> error + GeoCoordinates list" where
  "boundaryPoints bg =
     (if projection_type bg = Planar then planeCoordinates bg
      else and_then (findBoundsIntersectionsOnSphere bg) (\<lambda>found. Inr (subdivideSides found)))"

text \<open>
  Steps 5 and 6 of the planar algorithm in the spec's words: the world corners the frustum
  contains, and the intersections of an edge with the frustum planes that the tolerance
  check confirms, each with the altitude forced to 0.
\<close>

definition groundLevel :: "GeoCoordinates \<Rightarrow> GeoCoordinates" where
  "groundLevel g = g\<lparr>altitude := Some 0\<rparr>"

definition cornersInFrustum ::
  "BoundsGenerator \<Rightarrow> Frustum \<Rightarrow> Vector3 list \<Rightarrow> GeoCoordinates list" where
  "cornersInFrustum bg frustum corners =
     map (\<lambda>c. groundLevel (unprojectPoint bg c)) (filter (containsPoint bg frustum) corners)"

definition planeIntersection :: "BoundsGenerator \<Rightarrow> Edge \<Rightarrow> Plane \<Rightarrow> Vector3 option" where
  "planeIntersection bg edge plane =
     (case edge of
        EdgeLine line \<Rightarrow>
          if plane_intersectsLine bg plane line then plane_intersectLine bg plane line else None
      | EdgeRay ray \<Rightarrow>
          if ray_intersectsPlane bg ray plane then ray_intersectPlane bg ray plane else None)"

definition confirmedIntersection ::
  "BoundsGenerator \<Rightarrow> Edge \<Rightarrow> Plane \<Rightarrow> GeoCoordinates list" where
  "confirmedIntersection bg edge plane =
     (case planeIntersection bg edge plane of
        None \<Rightarrow> []
      | Some point \<Rightarrow>
          if closeToFrustum bg point then [groundLevel (unprojectPoint bg point)] else [])"

definition edgeFrustumIntersections ::
  "BoundsGenerator \<Rightarrow> Frustum \<Rightarrow> Edge \<Rightarrow> GeoCoordinates list" where
  "edgeFrustumIntersections bg frustum edge =
     concat (map (confirmedIntersection bg edge) (planes frustum))"

definition v3_negate :: "Vector3 \<Rightarrow> Vector3" where
  "v3_negate a = \<lparr>vx = - vx a, vy = - vy a, vz = - vz a\<rparr>"

section \<open>Concrete views\<close>

text \<open>
  Views on which the statements below are evaluated. The camera, the projection and the
  math library are given by their results on the points that occur. The planar world is
  the square of side \<open>earthCircumference\<close>; the planar projection maps it linearly to
  longitudes in \<open>[-180, 180]\<close> and latitudes in \<open>[-90, 90]\<close>.
\<close>

definition earthRadius :: real where
  "earthRadius = 6378137"

definition earthCircumference :: real where
  "earthCircumference = 40075016.6855784861531768177614"

definition zeroPlane :: Plane where
  "zeroPlane = \<lparr>normal = \<lparr>vx = 0, vy = 0, vz = 0\<rparr>, plane_constant = 0\<rparr>"

text \<open>A planar view toward the sky: no ray meets the ground, the world is out of sight.\<close>

definition skyView :: BoundsGenerator where
  "skyView =
     \<lparr>projection_type = Planar,
      unprojectPoint = (\<lambda>p. \<lparr>latitude = vy p * 180 / earthCircumference - 90,
                              longitude = vx p * 360 / earthCircumference - 180,
                              altitude = Some (vz p)\<rparr>),
      worldExtent = (\<lambda>lo hi. \<lparr>box_min = \<lparr>vx = 0, vy = 0, vz = lo\<rparr>,
                               box_max = \<lparr>vx = earthCircumference, vy = earthCircumference,
                                          vz = hi\<rparr>\<rparr>),
      tileWrappingEnabled = False,
      camera_unproject = (\<lambda>v. v),
      camera_project = (\<lambda>v. v),
      camera_frustum = Frustum zeroPlane zeroPlane zeroPlane zeroPlane zeroPlane zeroPlane,
      rayCastWorldCoordinates = (\<lambda>x y. None),
      closeToFrustum = (\<lambda>p. False),
      intersectSphere = (\<lambda>r s. None),
      ray_intersectsPlane = (\<lambda>r p. False),
      ray_intersectPlane = (\<lambda>r p. None),
      plane_intersectsLine = (\<lambda>p l. False),
      plane_intersectLine = (\<lambda>p l. None),
      containsPoint = (\<lambda>f p. False),
      EQUATORIAL_RADIUS = earthRadius,
      EQUATORIAL_CIRCUMFERENCE = earthCircumference\<rparr>"

text \<open>
  A planar view straight down on the middle of the world from a low altitude: the four
  canvas corners see the ground 1000 m around the middle.
\<close>

definition flatView :: BoundsGenerator where
  "flatView = skyView
     \<lparr>rayCastWorldCoordinates :=
        (\<lambda>x y. Some \<lparr>vx = earthCircumference / 2 + 1000 * x,
                      vy = earthCircumference / 2 + 1000 * y, vz = 0\<rparr>)\<rparr>"

text \<open>
  A planar view straight down on the middle of the world from the altitude
  \<open>earthCircumference\<close> with a field of view of 90 degrees: the canvas covers the
  ground from \<open>- earthCircumference / 2\<close> to \<open>3 * earthCircumference / 2\<close> in
  both directions, so its corners see the ground plane outside the world and the whole
  world rectangle lies inside the frustum. The four side planes of the frustum pass
  through the camera, the far plane lies below the ground. The math library computes
  with the usual formulas: signed distances to a plane decide containment and
  intersection.
\<close>

definition v3_dot :: "Vector3 \<Rightarrow> Vector3 \<Rightarrow> real" where
  "v3_dot a b = vx a * vx b + vy a * vy b + vz a * vz b"

definition distanceToPoint :: "Plane \<Rightarrow> Vector3 \<Rightarrow> real" where
  "distanceToPoint pl p = v3_dot (normal pl) p + plane_constant pl"

definition nadirFrustum :: Frustum where
  "nadirFrustum = Frustum
     \<lparr>normal = \<lparr>vx = - 1, vy = 0, vz = - 1\<rparr>, plane_constant = 3 * earthCircumference / 2\<rparr>
     \<lparr>normal = \<lparr>vx = 1, vy = 0, vz = - 1\<rparr>, plane_constant = earthCircumference / 2\<rparr>
     \<lparr>normal = \<lparr>vx = 0, vy = 1, vz = - 1\<rparr>, plane_constant = earthCircumference / 2\<rparr>
     \<lparr>normal = \<lparr>vx = 0, vy = - 1, vz = - 1\<rparr>, plane_constant = 3 * earthCircumference / 2\<rparr>
     \<lparr>normal = \<lparr>vx = 0, vy = 0, vz = 1\<rparr>, plane_constant = earthCircumference\<rparr>
     \<lparr>normal = \<lparr>vx = 0, vy = 0, vz = - 1\<rparr>, plane_constant = earthCircumference - 1\<rparr>"

definition highNadirView :: BoundsGenerator where
  "highNadirView = skyView
     \<lparr>camera_unproject :=
        (\<lambda>v. \<lparr>vx = earthCircumference / 2 + 2 * earthCircumference * vx v,
                vy = earthCircumference / 2 + 2 * earthCircumference * vy v,
                vz = - earthCircumference\<rparr>),
      camera_frustum := nadirFrustum,
      rayCastWorldCoordinates :=
        (\<lambda>x y. Some \<lparr>vx = earthCircumference / 2 + earthCircumference * x,
                      vy = earthCircumference / 2 + earthCircumference * y, vz = 0\<rparr>),
      closeToFrustum := (\<lambda>p. list_all (\<lambda>pl. - 1 \<le> distanceToPoint pl p) (planes nadirFrustum)),
      ray_intersectsPlane :=
        (\<lambda>r pl. distanceToPoint pl (origin r) = 0 \<or>
                 v3_dot (normal pl) (direction r) * distanceToPoint pl (origin r) < 0),
      ray_intersectPlane :=
        (\<lambda>r pl. if v3_dot (normal pl) (direction r) = 0 then
                   (if distanceToPoint pl (origin r) = 0 then Some (origin r) else None)
                 else if 0 \<le> - distanceToPoint pl (origin r) / v3_dot (normal pl) (direction r)
                 then Some (v3_add (origin r)
                        (v3_multiplyScalar (direction r)
                           (- distanceToPoint pl (origin r) / v3_dot (normal pl) (direction r))))
                 else None),
      plane_intersectsLine :=
        (\<lambda>pl l. (distanceToPoint pl (line_start l) < 0 \<and> 0 < distanceToPoint pl (line_end l)) \<or>
                 (distanceToPoint pl (line_end l) < 0 \<and> 0 < distanceToPoint pl (line_start l))),
      plane_intersectLine :=
        (\<lambda>pl l. if v3_dot (normal pl) (v3_sub (line_end l) (line_start l)) = 0 then
                   (if distanceToPoint pl (line_start l) = 0 then Some (line_start l) else None)
                 else if - distanceToPoint pl (line_start l) /
                           v3_dot (normal pl) (v3_sub (line_end l) (line_start l)) < 0 \<or>
                         1 < - distanceToPoint pl (line_start l) /
                           v3_dot (normal pl) (v3_sub (line_end l) (line_start l))
                 then None
                 else Some (v3_add (line_start l)
                        (v3_multiplyScalar (v3_sub (line_end l) (line_start l))
                           (- distanceToPoint pl (line_start l) /
                              v3_dot (normal pl) (v3_sub (line_end l) (line_start l)))))),
      containsPoint := (\<lambda>f p. list_all (\<lambda>pl. 0 \<le> distanceToPoint pl p) (planes f))\<rparr>"

text \<open>The same view of a world that repeats to the east and to the west.\<close>

definition wrappedNadirView :: BoundsGenerator where
  "wrappedNadirView = highNadirView\<lparr>tileWrappingEnabled := True\<rparr>"

text \<open>
  Spherical views. A world point is written by its geographic position
  \<open>(longitude, latitude, altitude)\<close>, which \<open>unprojectPoint\<close> reads off.
  \<open>antimeridianGlobe\<close> looks straight down on longitude 180, latitude 0: the canvas
  spans one degree to each side, so its left corners see longitude 179 and its right
  corners longitude -179.
\<close>

definition geoOfVector :: "Vector3 \<Rightarrow> GeoCoordinates" where
  "geoOfVector p = \<lparr>latitude = vy p, longitude = vx p, altitude = Some (vz p)\<rparr>"

definition antimeridianGlobe :: BoundsGenerator where
  "antimeridianGlobe = skyView
     \<lparr>projection_type := Spherical,
      unprojectPoint := geoOfVector,
      rayCastWorldCoordinates :=
        (\<lambda>x y. Some \<lparr>vx = (if x < 0 then 180 + x else if x = 0 then 180 else x - 180),
                      vy = y, vz = 0\<rparr>)\<rparr>"

text \<open>
  \<open>horizonGlobe\<close> looks north along the meridian 0 with the horizon below the middle of
  the canvas: the lower canvas corners see the globe, the middle of the canvas and the
  upper corners see the sky, and the left and right sides of the far plane cut the globe
  at the horizon. \<open>wideHorizonGlobe\<close> is the same view from higher up.
\<close>

definition horizonGlobe :: BoundsGenerator where
  "horizonGlobe = skyView
     \<lparr>projection_type := Spherical,
      unprojectPoint := geoOfVector,
      rayCastWorldCoordinates :=
        (\<lambda>x y. if y < 0 then Some \<lparr>vx = 5 * x, vy = 10, vz = 0\<rparr> else None),
      intersectSphere :=
        (\<lambda>r s. if direction r = \<lparr>vx = 0, vy = -2, vz = 0\<rparr>
                then Some \<lparr>vx = 30 * vx (origin r), vy = 50, vz = 0\<rparr> else None)\<rparr>"

definition wideHorizonGlobe :: BoundsGenerator where
  "wideHorizonGlobe = horizonGlobe
     \<lparr>rayCastWorldCoordinates :=
        (\<lambda>x y. if y < 0 then Some \<lparr>vx = 60 * x, vy = 10, vz = 0\<rparr> else None),
      intersectSphere :=
        (\<lambda>r s. if direction r = \<lparr>vx = 0, vy = -2, vz = 0\<rparr>
                then Some \<lparr>vx = 100 * vx (origin r), vy = 50, vz = 0\<rparr> else None)\<rparr>"

section \<open>Properties\<close>

subsection \<open>The antimeridian normalization\<close>

lemma foldl_append_concat:
  "foldl (\<lambda>acc x. acc @ f x) acc xs = acc @ concat (map f xs)"
  by (induction xs arbitrary: acc) simp_all

lemma fold_min_Finite:
  "foldl (\<lambda>m g. Math_min m (longitude g)) (Finite a) cs =
     Finite (Min (insert a (longitude ` set cs)))"
proof (induction cs arbitrary: a)
  case Nil
  then show ?case by simp
next
  case (Cons g cs)
  have "Min (insert (min a (longitude g)) (longitude ` set cs)) =
        Min (insert a (insert (longitude g) (longitude ` set cs)))"
    by (cases cs) (simp_all add: min.assoc)
  then show ?case using Cons by simp
qed

lemma fold_max_Finite:
  "foldl (\<lambda>m g. Math_max m (longitude g)) (Finite a) cs =
     Finite (Max (insert a (longitude ` set cs)))"
proof (induction cs arbitrary: a)
  case Nil
  then show ?case by simp
next
  case (Cons g cs)
  have "Max (insert (max a (longitude g)) (longitude ` set cs)) =
        Max (insert a (insert (longitude g) (longitude ` set cs)))"
    by (cases cs) (simp_all add: max.assoc)
  then show ?case using Cons by simp
qed

lemma fold_min_Infinity:
  "foldl (\<lambda>m g. Math_min m (longitude g)) Infinity cs =
     (if cs = [] then Infinity else Finite (Min (longitude ` set cs)))"
  by (cases cs) (simp_all add: fold_min_Finite)

lemma fold_max_NegInfinity:
  "foldl (\<lambda>m g. Math_max m (longitude g)) NegInfinity cs =
     (if cs = [] then NegInfinity else Finite (Max (longitude ` set cs)))"
  by (cases cs) (simp_all add: fold_max_Finite)

lemma shift_map_eq:
  "map (\<lambda>geoCoord. if longitude geoCoord < 0
                    then geoCoord\<lparr>longitude := 360 + longitude geoCoord\<rparr>
                    else geoCoord) cs = shiftNegativeLongitudes cs"
  by (simp add: shiftNegativeLongitudes_def add.commute)

lemma normalizeCoordinates_Nil: "normalizeCoordinates bg [] = []"
  by (simp add: normalizeCoordinates_def)

lemma normalizeCoordinates_nonempty:
  assumes "cs \<noteq> []"
  shows "normalizeCoordinates bg cs =
     (if 0 \<le> Min (longitude ` set cs) \<or> Max (longitude ` set cs) < 0 then cs
      else if (case rayCastWorldCoordinates bg 0 0 of
                 Some cameraTarget \<Rightarrow>
                   - 90 < longitude (unprojectPoint bg cameraTarget) \<and>
                   longitude (unprojectPoint bg cameraTarget) < 90
               | None \<Rightarrow>
                   Max (longitude ` set cs) - Min (longitude ` set cs)
                     < 360 + Min (longitude ` set cs) - Max (longitude ` set cs))
      then cs else shiftNegativeLongitudes cs)"
  using assms
  by (auto simp add: normalizeCoordinates_def fold_min_Infinity fold_max_NegInfinity shift_map_eq
      Let_def split: option.split)

lemma sign_uniform_iff:
  assumes "cs \<noteq> []"
  shows "(0 \<le> Min (longitude ` set cs) \<or> Max (longitude ` set cs) < 0) \<longleftrightarrow>
         ((\<forall>g\<in>set cs. 0 \<le> longitude g) \<or> (\<forall>g\<in>set cs. longitude g < 0))"
  using assms by simp

lemma length_normalizeCoordinates: "length (normalizeCoordinates bg cs) = length cs"
  by (cases "cs = []")
     (simp_all add: normalizeCoordinates_Nil normalizeCoordinates_nonempty
        shiftNegativeLongitudes_def)


lemma shiftNegativeLongitudes_fixed_iff:
  "shiftNegativeLongitudes cs = cs \<longleftrightarrow> (\<forall>g\<in>set cs. 0 \<le> longitude g)"
proof -
  have "shiftNegativeLongitudes cs = cs \<longleftrightarrow>
        map (\<lambda>g. if longitude g < 0 then g\<lparr>longitude := longitude g + 360\<rparr> else g) cs
          = map (\<lambda>g. g) cs"
    by (simp add: shiftNegativeLongitudes_def)
  also have "\<dots> \<longleftrightarrow>
        (\<forall>g\<in>set cs. (if longitude g < 0 then g\<lparr>longitude := longitude g + 360\<rparr> else g) = g)"
    by (simp only: map_eq_conv)
  also have "\<dots> \<longleftrightarrow> (\<forall>g\<in>set cs. 0 \<le> longitude g)"
  proof (intro ball_cong refl)
    fix g :: GeoCoordinates
    have "g\<lparr>longitude := longitude g + 360\<rparr> \<noteq> g"
    proof
      assume "g\<lparr>longitude := longitude g + 360\<rparr> = g"
      then have "longitude (g\<lparr>longitude := longitude g + 360\<rparr>) = longitude g" by simp
      then show False by simp
    qed
    then show "((if longitude g < 0 then g\<lparr>longitude := longitude g + 360\<rparr> else g) = g)
                 = (0 \<le> longitude g)"
      by auto
  qed
  finally show ?thesis .
qed

lemma normalizeCoordinates_sign_uniform:
  assumes "(\<forall>g\<in>set cs. 0 \<le> longitude g) \<or> (\<forall>g\<in>set cs. longitude g < 0)"
  shows "normalizeCoordinates bg cs = cs"
proof (cases "cs = []")
  case True
  then show ?thesis by (simp add: normalizeCoordinates_Nil)
next
  case False
  with assms have c: "0 \<le> Min (longitude ` set cs) \<or> Max (longitude ` set cs) < 0"
    using sign_uniform_iff [of cs] by blast
  show ?thesis
    unfolding normalizeCoordinates_nonempty [OF False] using c by (simp only: if_True)
qed

lemma normalizeCoordinates_mixed:
  assumes "\<not> ((\<forall>g\<in>set cs. 0 \<le> longitude g) \<or> (\<forall>g\<in>set cs. longitude g < 0))"
  shows "normalizeCoordinates bg cs =
     (if (case rayCastWorldCoordinates bg 0 0 of
            Some cameraTarget \<Rightarrow>
              - 90 < longitude (unprojectPoint bg cameraTarget) \<and>
              longitude (unprojectPoint bg cameraTarget) < 90
          | None \<Rightarrow>
              Max (longitude ` set cs) - Min (longitude ` set cs)
                < 360 + Min (longitude ` set cs) - Max (longitude ` set cs))
      then cs else shiftNegativeLongitudes cs)"
proof -
  from assms have ne: "cs \<noteq> []" by auto
  with assms have c: "\<not> (0 \<le> Min (longitude ` set cs) \<or> Max (longitude ` set cs) < 0)"
    using sign_uniform_iff [of cs] by blast
  show ?thesis
    unfolding normalizeCoordinates_nonempty [OF ne] using c by (simp only: if_False)
qed

lemma normalizeCoordinates_either:
  "normalizeCoordinates bg cs = cs \<or> normalizeCoordinates bg cs = shiftNegativeLongitudes cs"
  by (cases "cs = []") (simp_all add: normalizeCoordinates_Nil normalizeCoordinates_nonempty)

lemma shiftNegativeLongitudes_nonneg:
  assumes "\<forall>g\<in>set cs. - 360 \<le> longitude g"
  shows "\<forall>g\<in>set (shiftNegativeLongitudes cs). 0 \<le> longitude g"
  using assms by (auto simp: shiftNegativeLongitudes_def)

lemma normalizeCoordinates_idempotent:
  assumes "\<forall>g\<in>set cs. - 360 \<le> longitude g"
  shows "normalizeCoordinates bg (normalizeCoordinates bg cs) = normalizeCoordinates bg cs"
proof -
  consider "normalizeCoordinates bg cs = cs"
    | "normalizeCoordinates bg cs = shiftNegativeLongitudes cs"
    using normalizeCoordinates_either by blast
  then show ?thesis
  proof cases
    case 1
    then show ?thesis by simp
  next
    case 2
    have "normalizeCoordinates bg (shiftNegativeLongitudes cs) = shiftNegativeLongitudes cs"
      using shiftNegativeLongitudes_nonneg [OF assms]
      by (intro normalizeCoordinates_sign_uniform) blast
    with 2 show ?thesis by simp
  qed
qed

text \<open>
  C4, amended. The normalization pass leaves a list alone whose longitudes are all
  non-negative or all negative, so running it again on such a list changes nothing.
  Otherwise the raycast through the NDC origin decides. When it hits the ground, a look-at
  longitude strictly within (-90, 90) leaves the list alone and any other look-at
  longitude shifts every negative longitude by +360. When it misses, the list is left
  alone if maxLongitude - minLongitude < 360 + minLongitude - maxLongitude, and every
  negative longitude is shifted by +360 if not.
\<close>

theorem normalizeCoordinates_behaviour:
  "((\<forall>g\<in>set cs. 0 \<le> longitude g) \<or> (\<forall>g\<in>set cs. longitude g < 0) \<longrightarrow>
      normalizeCoordinates bg cs = cs \<and>
      normalizeCoordinates bg (normalizeCoordinates bg cs) = normalizeCoordinates bg cs) \<and>
   (\<not> ((\<forall>g\<in>set cs. 0 \<le> longitude g) \<or> (\<forall>g\<in>set cs. longitude g < 0)) \<longrightarrow>
      (case rayCastWorldCoordinates bg 0 0 of
         Some cameraTarget \<Rightarrow>
           normalizeCoordinates bg cs =
             (if - 90 < longitude (unprojectPoint bg cameraTarget) \<and>
                 longitude (unprojectPoint bg cameraTarget) < 90
              then cs else shiftNegativeLongitudes cs)
       | None \<Rightarrow>
           normalizeCoordinates bg cs =
             (if Max (longitude ` set cs) - Min (longitude ` set cs)
                   < 360 + Min (longitude ` set cs) - Max (longitude ` set cs)
              then cs else shiftNegativeLongitudes cs)))"
proof (intro conjI impI)
  assume "(\<forall>g\<in>set cs. 0 \<le> longitude g) \<or> (\<forall>g\<in>set cs. longitude g < 0)"
  then show "normalizeCoordinates bg cs = cs" by (rule normalizeCoordinates_sign_uniform)
  then show "normalizeCoordinates bg (normalizeCoordinates bg cs) = normalizeCoordinates bg cs"
    by simp
next
  assume "\<not> ((\<forall>g\<in>set cs. 0 \<le> longitude g) \<or> (\<forall>g\<in>set cs. longitude g < 0))"
  then show "case rayCastWorldCoordinates bg 0 0 of
         Some cameraTarget \<Rightarrow>
           normalizeCoordinates bg cs =
             (if - 90 < longitude (unprojectPoint bg cameraTarget) \<and>
                 longitude (unprojectPoint bg cameraTarget) < 90
              then cs else shiftNegativeLongitudes cs)
       | None \<Rightarrow>
           normalizeCoordinates bg cs =
             (if Max (longitude ` set cs) - Min (longitude ` set cs)
                   < 360 + Min (longitude ` set cs) - Max (longitude ` set cs)
              then cs else shiftNegativeLongitudes cs)"
    by (simp add: normalizeCoordinates_mixed split: option.split)
qed

text \<open>
  C8. When the longitudes straddle zero (some negative, some non-negative) and the raycast
  through the NDC origin finds no ground intersection, the shift of the negative
  longitudes by +360 is applied if and only if the direct span maxLongitude - minLongitude
  is at least the wrapped span 360 + minLongitude - maxLongitude, that is at least 180;
  otherwise the coordinates are left unchanged.
\<close>

theorem normalizeCoordinates_without_target:
  assumes "rayCastWorldCoordinates bg 0 0 = None"
    and "\<exists>g\<in>set cs. longitude g < 0"
    and "\<exists>g\<in>set cs. 0 \<le> longitude g"
  shows "(normalizeCoordinates bg cs = shiftNegativeLongitudes cs \<longleftrightarrow>
            360 + Min (longitude ` set cs) - Max (longitude ` set cs)
              \<le> Max (longitude ` set cs) - Min (longitude ` set cs)) \<and>
         (normalizeCoordinates bg cs = cs \<longleftrightarrow>
            Max (longitude ` set cs) - Min (longitude ` set cs)
              < 360 + Min (longitude ` set cs) - Max (longitude ` set cs)) \<and>
         (360 + Min (longitude ` set cs) - Max (longitude ` set cs)
              \<le> Max (longitude ` set cs) - Min (longitude ` set cs) \<longleftrightarrow>
            180 \<le> Max (longitude ` set cs) - Min (longitude ` set cs))"
proof -
  from assms(2,3) have mixed:
    "\<not> ((\<forall>g\<in>set cs. 0 \<le> longitude g) \<or> (\<forall>g\<in>set cs. longitude g < 0))"
    by (auto simp: not_le not_less)
  from assms(2) have moved: "shiftNegativeLongitudes cs \<noteq> cs"
    by (auto simp: shiftNegativeLongitudes_fixed_iff not_le)
  have eq: "normalizeCoordinates bg cs =
     (if Max (longitude ` set cs) - Min (longitude ` set cs)
           < 360 + Min (longitude ` set cs) - Max (longitude ` set cs)
      then cs else shiftNegativeLongitudes cs)"
    using normalizeCoordinates_mixed [OF mixed, of bg] assms(1) by simp
  show ?thesis
    using moved by (auto simp: eq)
qed

subsection \<open>Coordinate validation\<close>

text \<open>
  C5. Under the planar projection a world point passes \<^verbatim>\<open>isInVisibleMap\<close> if and only
  if its y lies in [0, equatorial circumference] and, when tile wrapping is disabled, its
  x lies in that range too; under the spherical projection every point passes. A hit
  point is added to the polygon exactly when it passes.
\<close>

theorem isInVisibleMap_iff:
  "(projection_type bg = Planar \<longrightarrow>
      (isInVisibleMap bg point \<longleftrightarrow>
         0 \<le> vy point \<and> vy point \<le> EQUATORIAL_CIRCUMFERENCE bg \<and>
         (\<not> tileWrappingEnabled bg \<longrightarrow>
            0 \<le> vx point \<and> vx point \<le> EQUATORIAL_CIRCUMFERENCE bg))) \<and>
   (projection_type bg = Spherical \<longrightarrow> isInVisibleMap bg point) \<and>
   validateAndAddToGeoPolygon bg point geoPolygon =
     (if isInVisibleMap bg point then geoPolygon @ [unprojectPoint bg point] else geoPolygon)"
  by (auto simp: isInVisibleMap_def validateAndAddToGeoPolygon_def)

subsection \<open>Edge subdivision\<close>

text \<open>
  C9. The edge-subdivision step is the identity: \<^verbatim>\<open>subdivideSides\<close> returns the list
  it is given, unchanged and in the same order.
\<close>

theorem subdivideSides_identity: "subdivideSides coords = coords"
  by (simp add: subdivideSides_def)

subsection \<open>The static elevation range source\<close>

text \<open>
  C10. For every tile key, \<^verbatim>\<open>getElevationRange\<close> of a static source returns the pair
  \<open>(m_minElevation, m_maxElevation)\<close> with the status \<open>FinalPrecise\<close>, whatever
  the tile key; \<^verbatim>\<open>ready\<close> is true; \<^verbatim>\<open>connect\<close> returns a resolved promise.
\<close>

theorem static_elevation_range:
  "getElevationRange src tileKey =
     \<lparr>minElevation = m_minElevation src, maxElevation = m_maxElevation src,
      calculationStatus = Some FinalPrecise\<rparr> \<and>
   getElevationRange src tileKey = getElevationRange src otherKey \<and>
   ready src \<and>
   connect src = Resolved ()"
  by (simp add: getElevationRange_def ready_def connect_def)


subsection \<open>Absence\<close>

lemma generateOnPlane_eq:
  "generateOnPlane bg =
     and_then (planeCoordinates bg) (\<lambda>coords. Inr (createPolygon bg coords True False))"
  by (simp add: generateOnPlane_def planeCoordinates_def and_then_def Let_def
      split: option.split)

lemma generateOnSphere_eq:
  "projection_type bg = Spherical \<Longrightarrow>
   generateOnSphere bg =
     and_then (boundaryPoints bg) (\<lambda>coords. Inr (createPolygon bg coords True True))"
  by (simp add: generateOnSphere_def boundaryPoints_def and_then_def assert_def
      subdivideSides_def split: sum.split)

lemma generate_eq:
  "generate bg =
     and_then (boundaryPoints bg)
       (\<lambda>coords. Inr (createPolygon bg coords True (projection_type bg = Spherical)))"
proof (cases "projection_type bg")
  case Planar
  then show ?thesis
    by (simp add: generate_def generateOnPlane_eq boundaryPoints_def)
next
  case Spherical
  then show ?thesis
    by (simp add: generate_def generateOnSphere_eq)
qed

lemma createPolygon_None_iff: "createPolygon bg cs s n = None \<longleftrightarrow> length cs < 3"
  by (auto simp: createPolygon_def Let_def)

lemma createPolygon_Some:
  "createPolygon bg cs s n = Some p \<Longrightarrow>
   3 \<le> length cs \<and> length (coordinates p) = length cs \<and> needsSort p = s"
  by (auto simp: createPolygon_def Let_def length_normalizeCoordinates split: if_splits)

text \<open>
  C1. For every generator, \<^verbatim>\<open>generate\<close> returns absence if and only if the call
  accumulated fewer than 3 boundary points; a polygon it returns has at least 3 vertices,
  as many as the points accumulated; absence is the value \<open>Inr None\<close>, not an
  error, and an error comes from the accumulation only. \<^verbatim>\<open>createPolygon\<close> returns
  absence exactly for fewer than 3 coordinates, whatever its flags.
\<close>

theorem generate_absent_iff:
  "(generate bg = Inr None \<longleftrightarrow> (\<exists>cs. boundaryPoints bg = Inr cs \<and> length cs < 3)) \<and>
   (\<forall>p. generate bg = Inr (Some p) \<longrightarrow>
      3 \<le> length (coordinates p) \<and>
      (\<exists>cs. boundaryPoints bg = Inr cs \<and> length (coordinates p) = length cs)) \<and>
   (\<forall>e. generate bg = Inl e \<longleftrightarrow> boundaryPoints bg = Inl e) \<and>
   (createPolygon bg coords sort_flag normalize_flag = None \<longleftrightarrow> length coords < 3)"
proof (cases "boundaryPoints bg")
  case (Inl e)
  then have "generate bg = Inl e"
    by (simp add: generate_eq and_then_def)
  with Inl show ?thesis
    by (simp add: createPolygon_None_iff)
next
  case (Inr cs)
  then have g: "generate bg = Inr (createPolygon bg cs True (projection_type bg = Spherical))"
    by (simp add: generate_eq and_then_def)
  have "\<forall>p. createPolygon bg cs True (projection_type bg = Spherical) = Some p \<longrightarrow>
          3 \<le> length (coordinates p) \<and> length (coordinates p) = length cs"
    using createPolygon_Some by fastforce
  with Inr g show ?thesis
    by (auto simp add: createPolygon_None_iff)
qed


subsection \<open>Evaluation on the concrete views\<close>

lemmas view_simps = skyView_def flatView_def highNadirView_def wrappedNadirView_def
  nadirFrustum_def antimeridianGlobe_def horizonGlobe_def wideHorizonGlobe_def
  earthRadius_def earthCircumference_def geoOfVector_def zeroPlane_def v3_dot_def
  distanceToPoint_def

lemmas step_simps = addCanvasCornerIntersection_def addNDCRayIntersection_def
  validateAndAddToGeoPolygon_def isInVisibleMap_def addHorizonIntersection_def
  getVerticalHorizonPositionInNDC_def getWorldConers_def addPointInFrustum_def
  addFrustumIntersection_def addFarPlaneSideIntersections_def
  findBoundsIntersectionsOnSphere_def and_then_def assert_def subdivideSides_def
  m_groundSphere_def m_groundPlane_def v3_sub_def v3_add_def v3_multiplyScalar_def

lemma boundaryPoints_skyView: "boundaryPoints skyView = Inr []"
  by (simp add: boundaryPoints_def planeCoordinates_def view_simps step_simps)

text \<open>
  C1 on the view toward the sky, where no point is accumulated and the result is absence,
  and on the low view straight down, where four points are accumulated.
\<close>

theorem generate_absent_iff_witness:
  "boundaryPoints skyView = Inr [] \<and> generate skyView = Inr None \<and>
   boundaryPoints flatView =
     Inr (map (unprojectPoint flatView)
       [\<lparr>vx = earthCircumference / 2 - 1000, vy = earthCircumference / 2 - 1000, vz = 0\<rparr>,
        \<lparr>vx = earthCircumference / 2 - 1000, vy = earthCircumference / 2 + 1000, vz = 0\<rparr>,
        \<lparr>vx = earthCircumference / 2 + 1000, vy = earthCircumference / 2 + 1000, vz = 0\<rparr>,
        \<lparr>vx = earthCircumference / 2 + 1000, vy = earthCircumference / 2 - 1000, vz = 0\<rparr>]) \<and>
   generate flatView \<noteq> Inr None"
proof -
  have "\<exists>cs. boundaryPoints skyView = Inr cs \<and> length cs < 3"
    by (simp add: boundaryPoints_skyView)
  with generate_absent_iff [of skyView] have sky: "generate skyView = Inr None"
    by blast
  have flat: "boundaryPoints flatView =
     Inr (map (unprojectPoint flatView)
       [\<lparr>vx = earthCircumference / 2 - 1000, vy = earthCircumference / 2 - 1000, vz = 0\<rparr>,
        \<lparr>vx = earthCircumference / 2 - 1000, vy = earthCircumference / 2 + 1000, vz = 0\<rparr>,
        \<lparr>vx = earthCircumference / 2 + 1000, vy = earthCircumference / 2 + 1000, vz = 0\<rparr>,
        \<lparr>vx = earthCircumference / 2 + 1000, vy = earthCircumference / 2 - 1000, vz = 0\<rparr>])"
    by (simp add: boundaryPoints_def planeCoordinates_def view_simps step_simps)
  then have "\<not> (\<exists>cs. boundaryPoints flatView = Inr cs \<and> length cs < 3)"
    by simp
  with generate_absent_iff [of flatView] have "generate flatView \<noteq> Inr None"
    by blast
  with sky flat show ?thesis
    by (simp only: boundaryPoints_skyView simp_thms)
qed

text \<open>C5 on points inside and outside the world, without and with wrapping, and on the globe.\<close>

theorem isInVisibleMap_iff_witness:
  "isInVisibleMap flatView \<lparr>vx = 1000, vy = 2000, vz = 0\<rparr> \<and>
   \<not> isInVisibleMap flatView \<lparr>vx = - 1, vy = 2000, vz = 0\<rparr> \<and>
   isInVisibleMap (flatView\<lparr>tileWrappingEnabled := True\<rparr>) \<lparr>vx = - 1, vy = 2000, vz = 0\<rparr> \<and>
   \<not> isInVisibleMap (flatView\<lparr>tileWrappingEnabled := True\<rparr>) \<lparr>vx = 1000, vy = - 1, vz = 0\<rparr> \<and>
   isInVisibleMap antimeridianGlobe \<lparr>vx = - 1, vy = - 1, vz = 0\<rparr>"
  using isInVisibleMap_iff [where bg = flatView and point = "\<lparr>vx = 1000, vy = 2000, vz = 0\<rparr>"]
    isInVisibleMap_iff [where bg = flatView and point = "\<lparr>vx = - 1, vy = 2000, vz = 0\<rparr>"]
    isInVisibleMap_iff [where bg = "flatView\<lparr>tileWrappingEnabled := True\<rparr>"
      and point = "\<lparr>vx = - 1, vy = 2000, vz = 0\<rparr>"]
    isInVisibleMap_iff [where bg = "flatView\<lparr>tileWrappingEnabled := True\<rparr>"
      and point = "\<lparr>vx = 1000, vy = - 1, vz = 0\<rparr>"]
    isInVisibleMap_iff [where bg = antimeridianGlobe and point = "\<lparr>vx = - 1, vy = - 1, vz = 0\<rparr>"]
  by (simp add: view_simps)

text \<open>
  C4, amended, on the view of the antimeridian: the look-at longitude is 180, the negative
  longitudes are shifted, and a second pass changes nothing.
\<close>

theorem normalizeCoordinates_behaviour_witness:
  "rayCastWorldCoordinates antimeridianGlobe 0 0 = Some \<lparr>vx = 180, vy = 0, vz = 0\<rparr> \<and>
   normalizeCoordinates antimeridianGlobe
     [\<lparr>latitude = 1, longitude = 179, altitude = Some 0\<rparr>,
      \<lparr>latitude = 1, longitude = - 179, altitude = Some 0\<rparr>,
      \<lparr>latitude = - 1, longitude = - 179, altitude = Some 0\<rparr>] =
     [\<lparr>latitude = 1, longitude = 179, altitude = Some 0\<rparr>,
      \<lparr>latitude = 1, longitude = 181, altitude = Some 0\<rparr>,
      \<lparr>latitude = - 1, longitude = 181, altitude = Some 0\<rparr>] \<and>
   normalizeCoordinates antimeridianGlobe
     [\<lparr>latitude = 1, longitude = 179, altitude = Some 0\<rparr>,
      \<lparr>latitude = 1, longitude = 181, altitude = Some 0\<rparr>,
      \<lparr>latitude = - 1, longitude = 181, altitude = Some 0\<rparr>] =
     [\<lparr>latitude = 1, longitude = 179, altitude = Some 0\<rparr>,
      \<lparr>latitude = 1, longitude = 181, altitude = Some 0\<rparr>,
      \<lparr>latitude = - 1, longitude = 181, altitude = Some 0\<rparr>]"
  using normalizeCoordinates_behaviour [where bg = antimeridianGlobe and cs =
      "[\<lparr>latitude = 1, longitude = 179, altitude = Some 0\<rparr>,
        \<lparr>latitude = 1, longitude = - 179, altitude = Some 0\<rparr>,
        \<lparr>latitude = - 1, longitude = - 179, altitude = Some 0\<rparr>]"]
    normalizeCoordinates_behaviour [where bg = antimeridianGlobe and cs =
      "[\<lparr>latitude = 1, longitude = 179, altitude = Some 0\<rparr>,
        \<lparr>latitude = 1, longitude = 181, altitude = Some 0\<rparr>,
        \<lparr>latitude = - 1, longitude = 181, altitude = Some 0\<rparr>]"]
  by (simp add: view_simps shiftNegativeLongitudes_def)

text \<open>
  C4 as stated fails on the view of the horizon: the longitudes -5, 5, 30, -30 of the
  points \<^verbatim>\<open>generate\<close> accumulates straddle zero and the raycast through the NDC
  origin misses, so no look-at longitude lies within (-90, 90); the claim has the negative
  longitudes shifted to 355 and 330, the pass leaves the list as it is.
\<close>

theorem normalizeCoordinates_shift_counterexample:
  "rayCastWorldCoordinates horizonGlobe 0 0 = None \<and>
   generate horizonGlobe =
     Inr (Some (GeoPolygon
       [\<lparr>latitude = 10, longitude = - 5, altitude = Some 0\<rparr>,
        \<lparr>latitude = 10, longitude = 5, altitude = Some 0\<rparr>,
        \<lparr>latitude = 50, longitude = 30, altitude = Some 0\<rparr>,
        \<lparr>latitude = 50, longitude = - 30, altitude = Some 0\<rparr>] True)) \<and>
   normalizeCoordinates horizonGlobe
     [\<lparr>latitude = 10, longitude = - 5, altitude = Some 0\<rparr>,
      \<lparr>latitude = 10, longitude = 5, altitude = Some 0\<rparr>,
      \<lparr>latitude = 50, longitude = 30, altitude = Some 0\<rparr>,
      \<lparr>latitude = 50, longitude = - 30, altitude = Some 0\<rparr>] =
     [\<lparr>latitude = 10, longitude = - 5, altitude = Some 0\<rparr>,
      \<lparr>latitude = 10, longitude = 5, altitude = Some 0\<rparr>,
      \<lparr>latitude = 50, longitude = 30, altitude = Some 0\<rparr>,
      \<lparr>latitude = 50, longitude = - 30, altitude = Some 0\<rparr>] \<and>
   normalizeCoordinates horizonGlobe
     [\<lparr>latitude = 10, longitude = - 5, altitude = Some 0\<rparr>,
      \<lparr>latitude = 10, longitude = 5, altitude = Some 0\<rparr>,
      \<lparr>latitude = 50, longitude = 30, altitude = Some 0\<rparr>,
      \<lparr>latitude = 50, longitude = - 30, altitude = Some 0\<rparr>] \<noteq>
     [\<lparr>latitude = 10, longitude = 355, altitude = Some 0\<rparr>,
      \<lparr>latitude = 10, longitude = 5, altitude = Some 0\<rparr>,
      \<lparr>latitude = 50, longitude = 30, altitude = Some 0\<rparr>,
      \<lparr>latitude = 50, longitude = 330, altitude = Some 0\<rparr>]"
  by (simp add: generate_def generateOnSphere_def createPolygon_def normalizeCoordinates_def
      step_simps view_simps)

text \<open>
  C8 on the wide view of the horizon: the span 200 is at least the wrapped span 160, the
  negative longitudes are shifted.
\<close>

theorem normalizeCoordinates_without_target_witness:
  "rayCastWorldCoordinates wideHorizonGlobe 0 0 = None \<and>
   normalizeCoordinates wideHorizonGlobe
     [\<lparr>latitude = 10, longitude = - 60, altitude = Some 0\<rparr>,
      \<lparr>latitude = 10, longitude = 60, altitude = Some 0\<rparr>,
      \<lparr>latitude = 50, longitude = 100, altitude = Some 0\<rparr>,
      \<lparr>latitude = 50, longitude = - 100, altitude = Some 0\<rparr>] =
     [\<lparr>latitude = 10, longitude = 300, altitude = Some 0\<rparr>,
      \<lparr>latitude = 10, longitude = 60, altitude = Some 0\<rparr>,
      \<lparr>latitude = 50, longitude = 100, altitude = Some 0\<rparr>,
      \<lparr>latitude = 50, longitude = 260, altitude = Some 0\<rparr>]"
  using normalizeCoordinates_without_target [where bg = wideHorizonGlobe and cs =
      "[\<lparr>latitude = 10, longitude = - 60, altitude = Some 0\<rparr>,
        \<lparr>latitude = 10, longitude = 60, altitude = Some 0\<rparr>,
        \<lparr>latitude = 50, longitude = 100, altitude = Some 0\<rparr>,
        \<lparr>latitude = 50, longitude = - 100, altitude = Some 0\<rparr>]"]
  by (simp add: view_simps shiftNegativeLongitudes_def)

subsection \<open>All four canvas corners on the plane\<close>

lemma canvas_corners_all:
  assumes "rayCastWorldCoordinates bg (- 1) (- 1) = Some p1"
    and "rayCastWorldCoordinates bg (- 1) 1 = Some p2"
    and "rayCastWorldCoordinates bg 1 1 = Some p3"
    and "rayCastWorldCoordinates bg 1 (- 1) = Some p4"
    and "isInVisibleMap bg p1" and "isInVisibleMap bg p2"
    and "isInVisibleMap bg p3" and "isInVisibleMap bg p4"
  shows "addCanvasCornerIntersection bg [] False =
           [unprojectPoint bg p1, unprojectPoint bg p2, unprojectPoint bg p3, unprojectPoint bg p4]"
  using assms
  by (simp add: addCanvasCornerIntersection_def addNDCRayIntersection_def
      validateAndAddToGeoPolygon_def)

lemma generate_planar_complete:
  assumes "projection_type bg = Planar"
    and "addCanvasCornerIntersection bg [] False = [g1, g2, g3, g4]"
  shows "generate bg = Inr (Some (GeoPolygon [g1, g2, g3, g4] True))"
  using assms
  by (simp add: generate_def generateOnPlane_def createPolygon_def)

lemma isInVisibleMap_cong:
  assumes "projection_type bg' = projection_type bg"
    and "tileWrappingEnabled bg' = tileWrappingEnabled bg"
    and "EQUATORIAL_CIRCUMFERENCE bg' = EQUATORIAL_CIRCUMFERENCE bg"
  shows "isInVisibleMap bg' p = isInVisibleMap bg p"
  using assms by (simp add: isInVisibleMap_def)

text \<open>
  C2. Under the planar projection, when the raycasts through the four canvas corners
  (-1,-1), (-1,1), (1,1), (1,-1) all hit the ground and all four hits pass the validation,
  \<^verbatim>\<open>generate\<close> returns the polygon of exactly these four hits, in this order, with
  the flag that has the constructor sort them counter-clockwise. The horizon, world-corner
  and frustum-edge steps are not performed: the result is the same whatever the camera's
  unprojection and frustum, the world extent and the plane, line and sphere intersections
  are.
\<close>

theorem generate_planar_four_corners:
  assumes "projection_type bg = Planar"
    and "rayCastWorldCoordinates bg (- 1) (- 1) = Some p1"
    and "rayCastWorldCoordinates bg (- 1) 1 = Some p2"
    and "rayCastWorldCoordinates bg 1 1 = Some p3"
    and "rayCastWorldCoordinates bg 1 (- 1) = Some p4"
    and "isInVisibleMap bg p1" and "isInVisibleMap bg p2"
    and "isInVisibleMap bg p3" and "isInVisibleMap bg p4"
  shows "generate bg =
           Inr (Some (GeoPolygon
             [unprojectPoint bg p1, unprojectPoint bg p2, unprojectPoint bg p3,
              unprojectPoint bg p4] True)) \<and>
         generate (bg\<lparr>worldExtent := we, camera_unproject := cu, camera_project := cp,
                      camera_frustum := fr, closeToFrustum := ctf, intersectSphere := isp,
                      ray_intersectsPlane := risp, ray_intersectPlane := rip,
                      plane_intersectsLine := pisl, plane_intersectLine := pil,
                      containsPoint := cop\<rparr>) = generate bg"
proof -
  let ?bg' = "bg\<lparr>worldExtent := we, camera_unproject := cu, camera_project := cp,
                   camera_frustum := fr, closeToFrustum := ctf, intersectSphere := isp,
                   ray_intersectsPlane := risp, ray_intersectPlane := rip,
                   plane_intersectsLine := pisl, plane_intersectLine := pil,
                   containsPoint := cop\<rparr>"
  have a: "generate bg =
           Inr (Some (GeoPolygon
             [unprojectPoint bg p1, unprojectPoint bg p2, unprojectPoint bg p3,
              unprojectPoint bg p4] True))"
    using assms by (intro generate_planar_complete canvas_corners_all)
  have v: "isInVisibleMap ?bg' p = isInVisibleMap bg p" for p
    by (rule isInVisibleMap_cong) simp_all
  have "addCanvasCornerIntersection ?bg' [] False =
           [unprojectPoint ?bg' p1, unprojectPoint ?bg' p2, unprojectPoint ?bg' p3,
            unprojectPoint ?bg' p4]"
    using assms by (intro canvas_corners_all) (simp_all add: v)
  then have "generate ?bg' =
           Inr (Some (GeoPolygon
             [unprojectPoint ?bg' p1, unprojectPoint ?bg' p2, unprojectPoint ?bg' p3,
              unprojectPoint ?bg' p4] True))"
    using assms(1) by (intro generate_planar_complete) simp_all
  with a show ?thesis by simp
qed

text \<open>C2 on the low view straight down: the four corners see the ground inside the world.\<close>

theorem generate_planar_four_corners_witness:
  "generate flatView =
     Inr (Some (GeoPolygon
       (map (unprojectPoint flatView)
         [\<lparr>vx = earthCircumference / 2 - 1000, vy = earthCircumference / 2 - 1000, vz = 0\<rparr>,
          \<lparr>vx = earthCircumference / 2 - 1000, vy = earthCircumference / 2 + 1000, vz = 0\<rparr>,
          \<lparr>vx = earthCircumference / 2 + 1000, vy = earthCircumference / 2 + 1000, vz = 0\<rparr>,
          \<lparr>vx = earthCircumference / 2 + 1000, vy = earthCircumference / 2 - 1000, vz = 0\<rparr>])
       True))"
  using generate_planar_four_corners [where bg = flatView
      and ?p1.0 = "\<lparr>vx = earthCircumference / 2 - 1000, vy = earthCircumference / 2 - 1000, vz = 0\<rparr>"
      and ?p2.0 = "\<lparr>vx = earthCircumference / 2 - 1000, vy = earthCircumference / 2 + 1000, vz = 0\<rparr>"
      and ?p3.0 = "\<lparr>vx = earthCircumference / 2 + 1000, vy = earthCircumference / 2 + 1000, vz = 0\<rparr>"
      and ?p4.0 = "\<lparr>vx = earthCircumference / 2 + 1000, vy = earthCircumference / 2 - 1000, vz = 0\<rparr>"]
  by (simp add: isInVisibleMap_def view_simps)


subsection \<open>All four canvas corners on the globe\<close>

lemma canvas_corners_sphere:
  assumes "projection_type bg = Spherical"
    and "rayCastWorldCoordinates bg (- 1) (- 1) = Some p1"
    and "rayCastWorldCoordinates bg (- 1) 1 = Some p2"
    and "rayCastWorldCoordinates bg 1 1 = Some p3"
    and "rayCastWorldCoordinates bg 1 (- 1) = Some p4"
  shows "addCanvasCornerIntersection bg [] False =
           [unprojectPoint bg p1, unprojectPoint bg p2, unprojectPoint bg p3, unprojectPoint bg p4]"
  using assms by (intro canvas_corners_all) (simp_all add: isInVisibleMap_def)

lemma generate_sphere_complete:
  assumes "projection_type bg = Spherical"
    and "addCanvasCornerIntersection bg [] False = [g1, g2, g3, g4]"
  shows "generate bg = Inr (Some (GeoPolygon (normalizeCoordinates bg [g1, g2, g3, g4]) True))"
  using assms
  by (simp add: generate_def generateOnSphere_def findBoundsIntersectionsOnSphere_def
      and_then_def assert_def subdivideSides_def createPolygon_def)

lemma normalizeCoordinates_cong:
  assumes "rayCastWorldCoordinates bg' = rayCastWorldCoordinates bg"
    and "unprojectPoint bg' = unprojectPoint bg"
  shows "normalizeCoordinates bg' cs = normalizeCoordinates bg cs"
  unfolding normalizeCoordinates_def assms ..

text \<open>
  C3, amended. Under the spherical projection, when the raycasts through the four canvas
  corners all hit the globe, \<^verbatim>\<open>generate\<close> returns the polygon of these four hits
  after the antimeridian normalization pass, built with the flag that has the constructor
  sort them: the four points are handed over either unchanged or with every negative
  longitude shifted by +360, and unchanged when their longitudes are all non-negative or
  all negative. No other vertex is added, and the far-plane side probes are skipped: the
  result is the same whatever the sphere intersections and the camera's unprojection are.
\<close>

theorem generate_sphere_four_corners:
  assumes "projection_type bg = Spherical"
    and "rayCastWorldCoordinates bg (- 1) (- 1) = Some p1"
    and "rayCastWorldCoordinates bg (- 1) 1 = Some p2"
    and "rayCastWorldCoordinates bg 1 1 = Some p3"
    and "rayCastWorldCoordinates bg 1 (- 1) = Some p4"
  shows "generate bg =
           Inr (Some (GeoPolygon
             (normalizeCoordinates bg
               [unprojectPoint bg p1, unprojectPoint bg p2, unprojectPoint bg p3,
                unprojectPoint bg p4]) True)) \<and>
         (normalizeCoordinates bg
            [unprojectPoint bg p1, unprojectPoint bg p2, unprojectPoint bg p3,
             unprojectPoint bg p4] =
            [unprojectPoint bg p1, unprojectPoint bg p2, unprojectPoint bg p3,
             unprojectPoint bg p4] \<or>
          normalizeCoordinates bg
            [unprojectPoint bg p1, unprojectPoint bg p2, unprojectPoint bg p3,
             unprojectPoint bg p4] =
            shiftNegativeLongitudes
              [unprojectPoint bg p1, unprojectPoint bg p2, unprojectPoint bg p3,
               unprojectPoint bg p4]) \<and>
         ((\<forall>p\<in>{p1, p2, p3, p4}. 0 \<le> longitude (unprojectPoint bg p)) \<or>
          (\<forall>p\<in>{p1, p2, p3, p4}. longitude (unprojectPoint bg p) < 0) \<longrightarrow>
            generate bg =
              Inr (Some (GeoPolygon
                [unprojectPoint bg p1, unprojectPoint bg p2, unprojectPoint bg p3,
                 unprojectPoint bg p4] True))) \<and>
         generate (bg\<lparr>worldExtent := we, camera_unproject := cu, camera_project := cp,
                      camera_frustum := fr, closeToFrustum := ctf, intersectSphere := isp,
                      ray_intersectsPlane := risp, ray_intersectPlane := rip,
                      plane_intersectsLine := pisl, plane_intersectLine := pil,
                      containsPoint := cop\<rparr>) = generate bg"
proof -
  let ?cs = "[unprojectPoint bg p1, unprojectPoint bg p2, unprojectPoint bg p3,
              unprojectPoint bg p4]"
  let ?bg' = "bg\<lparr>worldExtent := we, camera_unproject := cu, camera_project := cp,
                   camera_frustum := fr, closeToFrustum := ctf, intersectSphere := isp,
                   ray_intersectsPlane := risp, ray_intersectPlane := rip,
                   plane_intersectsLine := pisl, plane_intersectLine := pil,
                   containsPoint := cop\<rparr>"
  have a: "generate bg = Inr (Some (GeoPolygon (normalizeCoordinates bg ?cs) True))"
    using assms by (intro generate_sphere_complete canvas_corners_sphere)
  have b: "normalizeCoordinates bg ?cs = ?cs \<or>
           normalizeCoordinates bg ?cs = shiftNegativeLongitudes ?cs"
    by (rule normalizeCoordinates_either)
  have c: "normalizeCoordinates bg ?cs = ?cs"
    if "(\<forall>p\<in>{p1, p2, p3, p4}. 0 \<le> longitude (unprojectPoint bg p)) \<or>
        (\<forall>p\<in>{p1, p2, p3, p4}. longitude (unprojectPoint bg p) < 0)"
    using that by (intro normalizeCoordinates_sign_uniform) auto
  have "addCanvasCornerIntersection ?bg' [] False =
          [unprojectPoint ?bg' p1, unprojectPoint ?bg' p2, unprojectPoint ?bg' p3,
           unprojectPoint ?bg' p4]"
    using assms by (intro canvas_corners_sphere) simp_all
  then have "generate ?bg' =
               Inr (Some (GeoPolygon (normalizeCoordinates ?bg'
                 [unprojectPoint ?bg' p1, unprojectPoint ?bg' p2, unprojectPoint ?bg' p3,
                  unprojectPoint ?bg' p4]) True))"
    using assms(1) by (intro generate_sphere_complete) simp_all
  moreover have "normalizeCoordinates ?bg' xs = normalizeCoordinates bg xs" for xs
    by (rule normalizeCoordinates_cong) simp_all
  ultimately have d: "generate ?bg' = generate bg"
    using a by simp
  from a b c d show ?thesis by simp
qed

text \<open>C3, amended, on the view of the antimeridian.\<close>

theorem generate_sphere_four_corners_witness:
  "generate antimeridianGlobe =
     Inr (Some (GeoPolygon
       [\<lparr>latitude = - 1, longitude = 179, altitude = Some 0\<rparr>,
        \<lparr>latitude = 1, longitude = 179, altitude = Some 0\<rparr>,
        \<lparr>latitude = 1, longitude = 181, altitude = Some 0\<rparr>,
        \<lparr>latitude = - 1, longitude = 181, altitude = Some 0\<rparr>] True))"
proof -
  have n: "normalizeCoordinates antimeridianGlobe
     [\<lparr>latitude = - 1, longitude = 179, altitude = Some 0\<rparr>,
      \<lparr>latitude = 1, longitude = 179, altitude = Some 0\<rparr>,
      \<lparr>latitude = 1, longitude = - 179, altitude = Some 0\<rparr>,
      \<lparr>latitude = - 1, longitude = - 179, altitude = Some 0\<rparr>] =
     [\<lparr>latitude = - 1, longitude = 179, altitude = Some 0\<rparr>,
      \<lparr>latitude = 1, longitude = 179, altitude = Some 0\<rparr>,
      \<lparr>latitude = 1, longitude = 181, altitude = Some 0\<rparr>,
      \<lparr>latitude = - 1, longitude = 181, altitude = Some 0\<rparr>]"
    by (simp add: normalizeCoordinates_def view_simps)
  show ?thesis
    using generate_sphere_four_corners [where bg = antimeridianGlobe
        and ?p1.0 = "\<lparr>vx = 179, vy = - 1, vz = 0\<rparr>"
        and ?p2.0 = "\<lparr>vx = 179, vy = 1, vz = 0\<rparr>"
        and ?p3.0 = "\<lparr>vx = - 179, vy = 1, vz = 0\<rparr>"
        and ?p4.0 = "\<lparr>vx = - 179, vy = - 1, vz = 0\<rparr>"] n
    by (simp add: view_simps)
qed

text \<open>
  C3 as stated fails on the view of the antimeridian: the four corner rays hit the globe
  at the longitudes 179, 179, -179, -179, and the polygon returned has the longitudes
  179, 179, 181, 181: two of its vertices are not the intersection points.
\<close>

theorem generate_sphere_exact_counterexample:
  "projection_type antimeridianGlobe = Spherical \<and>
   rayCastWorldCoordinates antimeridianGlobe (- 1) (- 1) = Some \<lparr>vx = 179, vy = - 1, vz = 0\<rparr> \<and>
   rayCastWorldCoordinates antimeridianGlobe (- 1) 1 = Some \<lparr>vx = 179, vy = 1, vz = 0\<rparr> \<and>
   rayCastWorldCoordinates antimeridianGlobe 1 1 = Some \<lparr>vx = - 179, vy = 1, vz = 0\<rparr> \<and>
   rayCastWorldCoordinates antimeridianGlobe 1 (- 1) = Some \<lparr>vx = - 179, vy = - 1, vz = 0\<rparr> \<and>
   unprojectPoint antimeridianGlobe \<lparr>vx = 179, vy = - 1, vz = 0\<rparr> =
     \<lparr>latitude = - 1, longitude = 179, altitude = Some 0\<rparr> \<and>
   unprojectPoint antimeridianGlobe \<lparr>vx = 179, vy = 1, vz = 0\<rparr> =
     \<lparr>latitude = 1, longitude = 179, altitude = Some 0\<rparr> \<and>
   unprojectPoint antimeridianGlobe \<lparr>vx = - 179, vy = 1, vz = 0\<rparr> =
     \<lparr>latitude = 1, longitude = - 179, altitude = Some 0\<rparr> \<and>
   unprojectPoint antimeridianGlobe \<lparr>vx = - 179, vy = - 1, vz = 0\<rparr> =
     \<lparr>latitude = - 1, longitude = - 179, altitude = Some 0\<rparr> \<and>
   generate antimeridianGlobe =
     Inr (Some (GeoPolygon
       [\<lparr>latitude = - 1, longitude = 179, altitude = Some 0\<rparr>,
        \<lparr>latitude = 1, longitude = 179, altitude = Some 0\<rparr>,
        \<lparr>latitude = 1, longitude = 181, altitude = Some 0\<rparr>,
        \<lparr>latitude = - 1, longitude = 181, altitude = Some 0\<rparr>] True)) \<and>
   generate antimeridianGlobe \<noteq>
     Inr (Some (GeoPolygon
       [\<lparr>latitude = - 1, longitude = 179, altitude = Some 0\<rparr>,
        \<lparr>latitude = 1, longitude = 179, altitude = Some 0\<rparr>,
        \<lparr>latitude = 1, longitude = - 179, altitude = Some 0\<rparr>,
        \<lparr>latitude = - 1, longitude = - 179, altitude = Some 0\<rparr>] True))"
  by (simp add: generate_def generateOnSphere_def createPolygon_def normalizeCoordinates_def
      step_simps view_simps)

subsection \<open>World corners and world edges\<close>

lemma length_planes: "length (planes frustum) = 6"
  by (cases frustum) simp

lemma addPointInFrustum_fold:
  "foldl (\<lambda>acc corner. addPointInFrustum bg corner frustum acc) acc corners =
     acc @ cornersInFrustum bg frustum corners"
  by (induction corners arbitrary: acc)
     (simp_all add: addPointInFrustum_def cornersInFrustum_def groundLevel_def)

lemma addFrustumIntersection_eq:
  "addFrustumIntersection bg edge frustum acc = acc @ edgeFrustumIntersections bg frustum edge"
proof -
  have "(\<lambda>acc plane.
          let intersection =
                (case edge of
                   EdgeRay ray \<Rightarrow>
                     if ray_intersectsPlane bg ray plane then ray_intersectPlane bg ray plane
                     else None
                 | EdgeLine line \<Rightarrow>
                     if plane_intersectsLine bg plane line then plane_intersectLine bg plane line
                     else None)
          in case intersection of
               Some point \<Rightarrow>
                 if closeToFrustum bg point then
                   (let geoIntersection = unprojectPoint bg point;
                        geoIntersection = geoIntersection\<lparr>altitude := Some 0\<rparr>
                    in acc @ [geoIntersection])
                 else acc
             | None \<Rightarrow> acc) =
        (\<lambda>acc plane. acc @ confirmedIntersection bg edge plane)"
    by (intro ext)
       (simp add: confirmedIntersection_def planeIntersection_def groundLevel_def
          split: Edge.split option.split)
  then show ?thesis
    by (simp add: addFrustumIntersection_def edgeFrustumIntersections_def foldl_append_concat)
qed

lemma addFrustumIntersection_fold:
  "foldl (\<lambda>acc edge. addFrustumIntersection bg edge frustum acc) acc edges =
     acc @ concat (map (edgeFrustumIntersections bg frustum) edges)"
  by (simp add: addFrustumIntersection_eq foldl_append_concat)

lemma v3_length_sub_commute: "v3_length (v3_sub a b) = v3_length (v3_sub b a)"
proof -
  have "(x - y) * (x - y) = (y - x) * (y - x)" for x y :: real
    by (simp add: algebra_simps)
  then show ?thesis by (simp add: v3_length_def v3_sub_def)
qed

lemma v3_normalize_sub_negate:
  "v3_normalize (v3_sub a b) = v3_negate (v3_normalize (v3_sub b a))"
proof -
  have neg: "- ((y - x) / l) = (x - y) / l" for x y l :: real
    by (metis minus_diff_eq minus_divide_left)
  have "v3_normalize (v3_sub a b) =
          (let l = (if v3_length (v3_sub b a) = 0 then 1 else v3_length (v3_sub b a))
           in \<lparr>vx = (vx a - vx b) / l, vy = (vy a - vy b) / l, vz = (vz a - vz b) / l\<rparr>)"
    by (simp add: v3_normalize_def v3_length_sub_commute [of a b] Let_def)
       (simp add: v3_sub_def)
  also have "\<dots> = v3_negate (v3_normalize (v3_sub b a))"
    by (simp add: v3_normalize_def v3_negate_def Let_def v3_sub_def neg)
  finally show ?thesis .
qed

lemma v3_normalize_axis:
  assumes "w > 0"
  shows "v3_normalize \<lparr>vx = - w, vy = 0, vz = 0\<rparr> = \<lparr>vx = - 1, vy = 0, vz = 0\<rparr>"
  using assms by (simp add: v3_normalize_def v3_length_def Let_def)

lemma planeCoordinates_steps:
  assumes "length (addCanvasCornerIntersection bg [] False) \<noteq> 4"
    and "getWorldConers bg = Some wc"
  shows "planeCoordinates bg = Inr
           (addHorizonIntersection bg (addCanvasCornerIntersection bg [] False) @
            (if \<not> tileWrappingEnabled bg then
               cornersInFrustum bg (camera_frustum bg) [ne wc, nw wc, se wc, sw wc] @
               concat (map (edgeFrustumIntersections bg (camera_frustum bg))
                 [EdgeLine \<lparr>line_start = sw wc, line_end = se wc\<rparr>,
                  EdgeLine \<lparr>line_start = ne wc, line_end = nw wc\<rparr>,
                  EdgeLine \<lparr>line_start = se wc, line_end = ne wc\<rparr>,
                  EdgeLine \<lparr>line_start = nw wc, line_end = sw wc\<rparr>])
             else
               concat (map (edgeFrustumIntersections bg (camera_frustum bg))
                 [EdgeRay \<lparr>origin = se wc,
                           direction = v3_normalize (v3_sub (sw wc) (se wc))\<rparr>,
                  EdgeRay \<lparr>origin = se wc,
                           direction = v3_normalize (v3_sub (se wc) (sw wc))\<rparr>,
                  EdgeRay \<lparr>origin = ne wc,
                           direction = v3_normalize (v3_sub (sw wc) (se wc))\<rparr>,
                  EdgeRay \<lparr>origin = ne wc,
                           direction = v3_normalize (v3_sub (se wc) (sw wc))\<rparr>])))"
  using assms
  by (simp add: planeCoordinates_def Let_def addPointInFrustum_fold addFrustumIntersection_fold)


text \<open>
  C6. In the planar algorithm, once the four canvas corners have not all been validated,
  the points added after the horizon step are: with wrapping disabled, each of the world
  corners NE, NW, SE, SW that the frustum contains, then for each of the finite edges
  south, north, east, west, and for each of the 6 frustum planes, the intersection the
  tolerance check confirms; with wrapping enabled, no world corner, and the confirmed
  intersections of the same 6 planes with four rays, from the SE and from the NE corner
  in a direction and in its opposite. Each point is added with altitude 0. For a world
  box at altitude 0 and of positive width the two directions are west (-1,0,0) and east.
\<close>

theorem generate_planar_world_steps:
  assumes "projection_type bg = Planar"
    and "length (addCanvasCornerIntersection bg [] False) \<noteq> 4"
    and "getWorldConers bg = Some wc"
  shows "generate bg = Inr (createPolygon bg
           (addHorizonIntersection bg (addCanvasCornerIntersection bg [] False) @
            (if \<not> tileWrappingEnabled bg then
               cornersInFrustum bg (camera_frustum bg) [ne wc, nw wc, se wc, sw wc] @
               concat (map (edgeFrustumIntersections bg (camera_frustum bg))
                 [EdgeLine \<lparr>line_start = sw wc, line_end = se wc\<rparr>,
                  EdgeLine \<lparr>line_start = ne wc, line_end = nw wc\<rparr>,
                  EdgeLine \<lparr>line_start = se wc, line_end = ne wc\<rparr>,
                  EdgeLine \<lparr>line_start = nw wc, line_end = sw wc\<rparr>])
             else
               concat (map (edgeFrustumIntersections bg (camera_frustum bg))
                 [EdgeRay \<lparr>origin = se wc,
                           direction = v3_normalize (v3_sub (sw wc) (se wc))\<rparr>,
                  EdgeRay \<lparr>origin = se wc,
                           direction = v3_negate (v3_normalize (v3_sub (sw wc) (se wc)))\<rparr>,
                  EdgeRay \<lparr>origin = ne wc,
                           direction = v3_normalize (v3_sub (sw wc) (se wc))\<rparr>,
                  EdgeRay \<lparr>origin = ne wc,
                           direction = v3_negate (v3_normalize (v3_sub (sw wc) (se wc)))\<rparr>])))
           True False) \<and>
         length (planes (camera_frustum bg)) = 6 \<and>
         sw wc = box_min (worldExtent bg 0 0) \<and>
         ne wc = box_max (worldExtent bg 0 0) \<and>
         se wc = \<lparr>vx = vx (box_max (worldExtent bg 0 0)),
                  vy = vy (box_min (worldExtent bg 0 0)), vz = 0\<rparr> \<and>
         nw wc = \<lparr>vx = vx (box_min (worldExtent bg 0 0)),
                  vy = vy (box_max (worldExtent bg 0 0)), vz = 0\<rparr> \<and>
         (vz (box_min (worldExtent bg 0 0)) = 0 \<and>
          vx (box_min (worldExtent bg 0 0)) < vx (box_max (worldExtent bg 0 0)) \<longrightarrow>
            v3_normalize (v3_sub (sw wc) (se wc)) = \<lparr>vx = - 1, vy = 0, vz = 0\<rparr>)"
proof -
  have gen: "generate bg = and_then (planeCoordinates bg)
               (\<lambda>coords. Inr (createPolygon bg coords True False))"
    using assms(1) by (simp add: generate_def generateOnPlane_eq)
  have wc: "wc = \<lparr>se = \<lparr>vx = vx (box_max (worldExtent bg 0 0)),
                         vy = vy (box_min (worldExtent bg 0 0)), vz = 0\<rparr>,
                   sw = box_min (worldExtent bg 0 0),
                   ne = box_max (worldExtent bg 0 0),
                   nw = \<lparr>vx = vx (box_min (worldExtent bg 0 0)),
                         vy = vy (box_max (worldExtent bg 0 0)), vz = 0\<rparr>\<rparr>"
    using assms(1,3) by (simp add: getWorldConers_def Let_def)
  have dir: "v3_normalize (v3_sub (sw wc) (se wc)) = \<lparr>vx = - 1, vy = 0, vz = 0\<rparr>"
    if "vz (box_min (worldExtent bg 0 0)) = 0"
      and "vx (box_min (worldExtent bg 0 0)) < vx (box_max (worldExtent bg 0 0))"
  proof -
    have "v3_sub (sw wc) (se wc) =
            \<lparr>vx = - (vx (box_max (worldExtent bg 0 0)) - vx (box_min (worldExtent bg 0 0))),
             vy = 0, vz = 0\<rparr>"
      using that(1) by (simp add: wc v3_sub_def)
    then show ?thesis
      using that(2)
        v3_normalize_axis [of "vx (box_max (worldExtent bg 0 0)) - vx (box_min (worldExtent bg 0 0))"]
      by simp
  qed
  have "planeCoordinates bg = Inr
           (addHorizonIntersection bg (addCanvasCornerIntersection bg [] False) @
            (if \<not> tileWrappingEnabled bg then
               cornersInFrustum bg (camera_frustum bg) [ne wc, nw wc, se wc, sw wc] @
               concat (map (edgeFrustumIntersections bg (camera_frustum bg))
                 [EdgeLine \<lparr>line_start = sw wc, line_end = se wc\<rparr>,
                  EdgeLine \<lparr>line_start = ne wc, line_end = nw wc\<rparr>,
                  EdgeLine \<lparr>line_start = se wc, line_end = ne wc\<rparr>,
                  EdgeLine \<lparr>line_start = nw wc, line_end = sw wc\<rparr>])
             else
               concat (map (edgeFrustumIntersections bg (camera_frustum bg))
                 [EdgeRay \<lparr>origin = se wc,
                           direction = v3_normalize (v3_sub (sw wc) (se wc))\<rparr>,
                  EdgeRay \<lparr>origin = se wc,
                           direction = v3_negate (v3_normalize (v3_sub (sw wc) (se wc)))\<rparr>,
                  EdgeRay \<lparr>origin = ne wc,
                           direction = v3_normalize (v3_sub (sw wc) (se wc))\<rparr>,
                  EdgeRay \<lparr>origin = ne wc,
                           direction = v3_negate (v3_normalize (v3_sub (sw wc) (se wc)))\<rparr>])))"
    unfolding planeCoordinates_steps [OF assms(2,3)]
      v3_normalize_sub_negate [of "se wc" "sw wc"] ..
  then have g1: "generate bg = Inr (createPolygon bg
           (addHorizonIntersection bg (addCanvasCornerIntersection bg [] False) @
            (if \<not> tileWrappingEnabled bg then
               cornersInFrustum bg (camera_frustum bg) [ne wc, nw wc, se wc, sw wc] @
               concat (map (edgeFrustumIntersections bg (camera_frustum bg))
                 [EdgeLine \<lparr>line_start = sw wc, line_end = se wc\<rparr>,
                  EdgeLine \<lparr>line_start = ne wc, line_end = nw wc\<rparr>,
                  EdgeLine \<lparr>line_start = se wc, line_end = ne wc\<rparr>,
                  EdgeLine \<lparr>line_start = nw wc, line_end = sw wc\<rparr>])
             else
               concat (map (edgeFrustumIntersections bg (camera_frustum bg))
                 [EdgeRay \<lparr>origin = se wc,
                           direction = v3_normalize (v3_sub (sw wc) (se wc))\<rparr>,
                  EdgeRay \<lparr>origin = se wc,
                           direction = v3_negate (v3_normalize (v3_sub (sw wc) (se wc)))\<rparr>,
                  EdgeRay \<lparr>origin = ne wc,
                           direction = v3_normalize (v3_sub (sw wc) (se wc))\<rparr>,
                  EdgeRay \<lparr>origin = ne wc,
                           direction = v3_negate (v3_normalize (v3_sub (sw wc) (se wc)))\<rparr>])))
           True False)"
    by (simp only: gen and_then_def sum.case)
  have h: "sw wc = box_min (worldExtent bg 0 0)" "ne wc = box_max (worldExtent bg 0 0)"
    "se wc = \<lparr>vx = vx (box_max (worldExtent bg 0 0)),
              vy = vy (box_min (worldExtent bg 0 0)), vz = 0\<rparr>"
    "nw wc = \<lparr>vx = vx (box_min (worldExtent bg 0 0)),
              vy = vy (box_max (worldExtent bg 0 0)), vz = 0\<rparr>"
    by (simp_all add: wc)
  show ?thesis
    using g1 h dir length_planes [of "camera_frustum bg"] by blast
qed


lemma nadir_corners_rejected:
  "addCanvasCornerIntersection highNadirView [] False = []"
  "addCanvasCornerIntersection wrappedNadirView [] False = []"
  by (simp_all add: addCanvasCornerIntersection_def addNDCRayIntersection_def
      validateAndAddToGeoPolygon_def isInVisibleMap_def view_simps)

lemma nadir_worldCorners:
  "getWorldConers highNadirView =
     Some \<lparr>se = \<lparr>vx = earthCircumference, vy = 0, vz = 0\<rparr>,
           sw = \<lparr>vx = 0, vy = 0, vz = 0\<rparr>,
           ne = \<lparr>vx = earthCircumference, vy = earthCircumference, vz = 0\<rparr>,
           nw = \<lparr>vx = 0, vy = earthCircumference, vz = 0\<rparr>\<rparr>"
  "getWorldConers wrappedNadirView =
     Some \<lparr>se = \<lparr>vx = earthCircumference, vy = 0, vz = 0\<rparr>,
           sw = \<lparr>vx = 0, vy = 0, vz = 0\<rparr>,
           ne = \<lparr>vx = earthCircumference, vy = earthCircumference, vz = 0\<rparr>,
           nw = \<lparr>vx = 0, vy = earthCircumference, vz = 0\<rparr>\<rparr>"
  by (simp_all add: getWorldConers_def skyView_def highNadirView_def wrappedNadirView_def)

lemma nadir_planar:
  "projection_type highNadirView = Planar" "projection_type wrappedNadirView = Planar"
  "\<not> tileWrappingEnabled highNadirView" "tileWrappingEnabled wrappedNadirView"
  by (simp_all add: skyView_def highNadirView_def wrappedNadirView_def)

lemma nadir_horizon:
  "addHorizonIntersection highNadirView [] = []"
  "addHorizonIntersection wrappedNadirView [] = []"
  by (simp_all add: addHorizonIntersection_def getVerticalHorizonPositionInNDC_def
      m_groundPlane_def v3_add_def v3_sub_def v3_multiplyScalar_def view_simps)

lemma nadir_corners_in_frustum:
  "cornersInFrustum highNadirView (camera_frustum highNadirView)
     [\<lparr>vx = earthCircumference, vy = earthCircumference, vz = 0\<rparr>,
      \<lparr>vx = 0, vy = earthCircumference, vz = 0\<rparr>,
      \<lparr>vx = earthCircumference, vy = 0, vz = 0\<rparr>,
      \<lparr>vx = 0, vy = 0, vz = 0\<rparr>] =
     [\<lparr>latitude = 90, longitude = 180, altitude = Some 0\<rparr>,
      \<lparr>latitude = 90, longitude = - 180, altitude = Some 0\<rparr>,
      \<lparr>latitude = - 90, longitude = 180, altitude = Some 0\<rparr>,
      \<lparr>latitude = - 90, longitude = - 180, altitude = Some 0\<rparr>]"
  by (simp add: cornersInFrustum_def groundLevel_def view_simps)

lemma nadir_edges_inside:
  "edgeFrustumIntersections highNadirView (camera_frustum highNadirView)
     (EdgeLine \<lparr>line_start = \<lparr>vx = 0, vy = 0, vz = 0\<rparr>,
                line_end = \<lparr>vx = earthCircumference, vy = 0, vz = 0\<rparr>\<rparr>) = []"
  "edgeFrustumIntersections highNadirView (camera_frustum highNadirView)
     (EdgeLine \<lparr>line_start = \<lparr>vx = earthCircumference, vy = earthCircumference, vz = 0\<rparr>,
                line_end = \<lparr>vx = 0, vy = earthCircumference, vz = 0\<rparr>\<rparr>) = []"
  "edgeFrustumIntersections highNadirView (camera_frustum highNadirView)
     (EdgeLine \<lparr>line_start = \<lparr>vx = earthCircumference, vy = 0, vz = 0\<rparr>,
                line_end = \<lparr>vx = earthCircumference, vy = earthCircumference, vz = 0\<rparr>\<rparr>) = []"
  "edgeFrustumIntersections highNadirView (camera_frustum highNadirView)
     (EdgeLine \<lparr>line_start = \<lparr>vx = 0, vy = earthCircumference, vz = 0\<rparr>,
                line_end = \<lparr>vx = 0, vy = 0, vz = 0\<rparr>\<rparr>) = []"
  by (simp_all add: edgeFrustumIntersections_def confirmedIntersection_def
      planeIntersection_def view_simps)

lemma nadir_rays:
  "edgeFrustumIntersections wrappedNadirView (camera_frustum wrappedNadirView)
     (EdgeRay \<lparr>origin = \<lparr>vx = earthCircumference, vy = 0, vz = 0\<rparr>,
               direction = \<lparr>vx = - 1, vy = 0, vz = 0\<rparr>\<rparr>) =
     [\<lparr>latitude = - 90, longitude = - 360, altitude = Some 0\<rparr>]"
  "edgeFrustumIntersections wrappedNadirView (camera_frustum wrappedNadirView)
     (EdgeRay \<lparr>origin = \<lparr>vx = earthCircumference, vy = 0, vz = 0\<rparr>,
               direction = \<lparr>vx = 1, vy = 0, vz = 0\<rparr>\<rparr>) =
     [\<lparr>latitude = - 90, longitude = 360, altitude = Some 0\<rparr>]"
  "edgeFrustumIntersections wrappedNadirView (camera_frustum wrappedNadirView)
     (EdgeRay \<lparr>origin = \<lparr>vx = earthCircumference, vy = earthCircumference, vz = 0\<rparr>,
               direction = \<lparr>vx = - 1, vy = 0, vz = 0\<rparr>\<rparr>) =
     [\<lparr>latitude = 90, longitude = - 360, altitude = Some 0\<rparr>]"
  "edgeFrustumIntersections wrappedNadirView (camera_frustum wrappedNadirView)
     (EdgeRay \<lparr>origin = \<lparr>vx = earthCircumference, vy = earthCircumference, vz = 0\<rparr>,
               direction = \<lparr>vx = 1, vy = 0, vz = 0\<rparr>\<rparr>) =
     [\<lparr>latitude = 90, longitude = 360, altitude = Some 0\<rparr>]"
  by (simp_all add: edgeFrustumIntersections_def confirmedIntersection_def
      planeIntersection_def groundLevel_def v3_add_def v3_multiplyScalar_def view_simps)

lemma nadir_extent:
  "worldExtent wrappedNadirView 0 0 =
     \<lparr>box_min = \<lparr>vx = 0, vy = 0, vz = 0\<rparr>,
      box_max = \<lparr>vx = earthCircumference, vy = earthCircumference, vz = 0\<rparr>\<rparr>"
  "0 < earthCircumference"
  by (simp_all add: skyView_def highNadirView_def wrappedNadirView_def earthCircumference_def)

text \<open>
  C6 on the high view straight down: without wrapping the polygon is made of the four
  world corners, with wrapping of the four points where the rays along the south and the
  north edge leave the frustum.
\<close>

theorem generate_planar_world_steps_witness:
  "generate highNadirView =
     Inr (Some (GeoPolygon
       [\<lparr>latitude = 90, longitude = 180, altitude = Some 0\<rparr>,
        \<lparr>latitude = 90, longitude = - 180, altitude = Some 0\<rparr>,
        \<lparr>latitude = - 90, longitude = 180, altitude = Some 0\<rparr>,
        \<lparr>latitude = - 90, longitude = - 180, altitude = Some 0\<rparr>] True)) \<and>
   generate wrappedNadirView =
     Inr (Some (GeoPolygon
       [\<lparr>latitude = - 90, longitude = - 360, altitude = Some 0\<rparr>,
        \<lparr>latitude = - 90, longitude = 360, altitude = Some 0\<rparr>,
        \<lparr>latitude = 90, longitude = - 360, altitude = Some 0\<rparr>,
        \<lparr>latitude = 90, longitude = 360, altitude = Some 0\<rparr>] True))"
proof -
  have n4: "length (addCanvasCornerIntersection highNadirView [] False) \<noteq> 4"
    "length (addCanvasCornerIntersection wrappedNadirView [] False) \<noteq> 4"
    by (simp_all add: nadir_corners_rejected)
  have a: "generate highNadirView =
     Inr (Some (GeoPolygon
       [\<lparr>latitude = 90, longitude = 180, altitude = Some 0\<rparr>,
        \<lparr>latitude = 90, longitude = - 180, altitude = Some 0\<rparr>,
        \<lparr>latitude = - 90, longitude = 180, altitude = Some 0\<rparr>,
        \<lparr>latitude = - 90, longitude = - 180, altitude = Some 0\<rparr>] True))"
    using generate_planar_world_steps [OF nadir_planar(1) n4(1) nadir_worldCorners(1)]
    by (simp add: nadir_planar nadir_corners_rejected nadir_horizon nadir_corners_in_frustum
        nadir_edges_inside createPolygon_def)
  have b: "generate wrappedNadirView =
     Inr (Some (GeoPolygon
       [\<lparr>latitude = - 90, longitude = - 360, altitude = Some 0\<rparr>,
        \<lparr>latitude = - 90, longitude = 360, altitude = Some 0\<rparr>,
        \<lparr>latitude = 90, longitude = - 360, altitude = Some 0\<rparr>,
        \<lparr>latitude = 90, longitude = 360, altitude = Some 0\<rparr>] True))"
    using generate_planar_world_steps [OF nadir_planar(2) n4(2) nadir_worldCorners(2)]
    by (simp add: nadir_planar nadir_corners_rejected nadir_horizon nadir_extent nadir_rays
        v3_negate_def createPolygon_def)
  from a b show ?thesis ..
qed

subsection \<open>The consistency check of the spherical algorithm\<close>

text \<open>
  The consistency check of the spherical algorithm. The canvas corners give at most 4
  points; with 4 the search returns at once, with 0 or 2 it goes on to the far-plane
  sides, which cannot fail under the spherical projection; so the search ends with an
  error exactly when 1 or 3 corner rays hit the globe.
\<close>

lemma corner_count_le: "length (addCanvasCornerIntersection bg [] False) \<le> 4"
  by (simp add: addCanvasCornerIntersection_def addNDCRayIntersection_def
      validateAndAddToGeoPolygon_def split: option.split)

lemma addFarPlaneSideIntersections_no_error:
  "projection_type bg = Spherical \<Longrightarrow> \<exists>cs'. addFarPlaneSideIntersections bg cs side = Inr cs'"
  by (simp add: addFarPlaneSideIntersections_def and_then_def assert_def Let_def)

lemma findBounds_assertion:
  assumes "projection_type bg = Spherical"
  shows "findBoundsIntersectionsOnSphere bg = Inl AssertionError \<longleftrightarrow>
           length (addCanvasCornerIntersection bg [] False) \<in> {1, 3}"
proof -
  let ?n = "length (addCanvasCornerIntersection bg [] False)"
  have far: "\<exists>cs'. addFarPlaneSideIntersections bg cs side = Inr cs'" for cs side
    using assms by (rule addFarPlaneSideIntersections_no_error)
  have three: "\<exists>out. and_then (addFarPlaneSideIntersections bg cs FarPlaneSide.Right) (\<lambda>cs.
            and_then (addFarPlaneSideIntersections bg cs Top) (\<lambda>cs.
            addFarPlaneSideIntersections bg cs FarPlaneSide.Left)) = Inr out" for cs
    by (metis (no_types, lifting) and_then_def far sum.case(2))
  have le: "?n \<le> 4" by (rule corner_count_le)
  consider "?n = 4" | "?n = 0" | "?n = 2" | "?n = 1 \<or> ?n = 3"
    using le by linarith
  then show ?thesis
  proof cases
    case 1
    with assms show ?thesis
      by (simp add: findBoundsIntersectionsOnSphere_def and_then_def assert_def)
  next
    case 2
    obtain c0 where c0: "addFarPlaneSideIntersections bg [] Bottom = Inr c0"
      using far by blast
    obtain out where "and_then (addFarPlaneSideIntersections bg c0 FarPlaneSide.Right) (\<lambda>cs.
            and_then (addFarPlaneSideIntersections bg cs Top) (\<lambda>cs.
            addFarPlaneSideIntersections bg cs FarPlaneSide.Left)) = Inr out"
      using three by blast
    with 2 c0 assms show ?thesis
      by (simp add: findBoundsIntersectionsOnSphere_def and_then_def assert_def)
  next
    case 3
    obtain out where "and_then (addFarPlaneSideIntersections bg
              (addCanvasCornerIntersection bg [] False) FarPlaneSide.Right) (\<lambda>cs.
            and_then (addFarPlaneSideIntersections bg cs Top) (\<lambda>cs.
            addFarPlaneSideIntersections bg cs FarPlaneSide.Left)) = Inr out"
      using three by blast
    with 3 assms show ?thesis
      by (simp add: findBoundsIntersectionsOnSphere_def and_then_def assert_def)
  next
    case 4
    with assms show ?thesis
      by (auto simp add: findBoundsIntersectionsOnSphere_def and_then_def assert_def)
  qed
qed

end
